theory Spec2Isabelle
  imports Main "HOL-Library.AList"
begin

section \<open>JavaScript values\<close>

text \<open>
  The connector in \<^verbatim>\<open>lib/ml.js\<close> works on plain JavaScript data: filters, update
  payloads and documents. The values of the model are the data values a filter or a
  payload can hold: primitives, arrays, plain objects, dates and regular expressions.
  Functions are not values of the model.

  \<^item> A number is an integer or \<open>NaN\<close>; the code only tests numbers for truthiness.
  \<^item> A string is a list of 8-bit code units.
  \<^item> \<open>JObj ps\<close> is a plain object (prototype \<open>Object.prototype\<close>) whose own enumerable
    properties are \<open>ps\<close>, listed in the order in which \<open>Object.keys\<close> enumerates them:
    the keys that are array indices first, in ascending numeric order, then the other
    keys in the order of their creation. Keys of a real object are distinct; on a list
    with a repeated key the first entry is the one a property read finds.
  \<^item> \<open>JObjP p ps\<close> is such an object after its prototype has been replaced by \<open>p\<close>,
    an object or \<open>null\<close>. This is what an assignment to the key \<open>__proto__\<close> does to
    a plain object (see \<open>js_assign\<close> below).
  \<^item> \<open>JArr xs\<close> is a dense array.
  \<^item> \<open>JRegExp src flags\<close> is a regular expression object, \<open>JDate t\<close> a date.
\<close>

datatype jsval =
    JUndefined
  | JNull
  | JBool bool
  | JNum int
  | JNaN
  | JStr string
  | JArr "jsval list"
  | JObj "(string \<times> jsval) list"
  | JObjP jsval "(string \<times> jsval) list"
  | JDate int
  | JRegExp string string

datatype error =
    TypeError
  | SyntaxError
  | ReferenceError string
  | RangeError

text \<open>Truthiness (\<open>ToBoolean\<close>) and \<open>typeof\<close>.\<close>

fun truthy :: "jsval \<Rightarrow> bool" where
  "truthy JUndefined = False"
| "truthy JNull = False"
| "truthy (JBool b) = b"
| "truthy (JNum n) = (n \<noteq> 0)"
| "truthy JNaN = False"
| "truthy (JStr s) = (s \<noteq> [])"
| "truthy (JArr xs) = True"
| "truthy (JObj ps) = True"
| "truthy (JObjP p ps) = True"
| "truthy (JDate t) = True"
| "truthy (JRegExp src fl) = True"

fun typeof :: "jsval \<Rightarrow> string" where
  "typeof JUndefined = ''undefined''"
| "typeof JNull = ''object''"
| "typeof (JBool b) = ''boolean''"
| "typeof (JNum n) = ''number''"
| "typeof JNaN = ''number''"
| "typeof (JStr s) = ''string''"
| "typeof (JArr xs) = ''object''"
| "typeof (JObj ps) = ''object''"
| "typeof (JObjP p ps) = ''object''"
| "typeof (JDate t) = ''object''"
| "typeof (JRegExp src fl) = ''object''"

text \<open>Decimal rendering of an array index, as \<open>Object.keys\<close> of an array produces it.\<close>

function decimal :: "nat \<Rightarrow> string" where
  "decimal n = (if n < 10 then [''0123456789'' ! n]
                else decimal (n div 10) @ [''0123456789'' ! (n mod 10)])"
  by pat_completeness auto
termination
  by (relation "measure (\<lambda>n. n)") auto

declare decimal.simps [simp del]

text \<open>
  An own property of a plain object: \<open>o[k]\<close> for a key that \<open>Object.prototype\<close> does
  not define. Absent keys read as \<open>undefined\<close>.
\<close>

definition own :: "(string \<times> jsval) list \<Rightarrow> string \<Rightarrow> jsval" where
  "own ps k = (case map_of ps k of Some v \<Rightarrow> v | None \<Rightarrow> JUndefined)"

text \<open>
  The own enumerable properties of an object, in the order of \<open>Object.keys\<close>: those of
  an array are its indices. A date or a regular expression has none.
\<close>

definition indexed :: "'a list \<Rightarrow> (string \<times> 'a) list" where
  "indexed xs = zip (map decimal [0..<length xs]) xs"

fun own_entries :: "jsval \<Rightarrow> (string \<times> jsval) list" where
  "own_entries (JObj ps) = ps"
| "own_entries (JObjP p ps) = ps"
| "own_entries (JArr xs) = indexed xs"
| "own_entries v = []"

text \<open>
  A property read \<open>v[k]\<close>. Reading a property of \<open>null\<close> or \<open>undefined\<close> raises a
  TypeError. An array and a string have a \<open>length\<close> and their indices. An object whose
  prototype has been replaced inherits the properties of the new prototype. The members
  that the built-in prototypes define (their methods, and the accessor \<open>__proto__\<close> of
  \<open>Object.prototype\<close>) are not values of the model: the keys the connector reads
  without having enumerated them (\<open>where\<close>, \<open>fields\<close>, \<open>options\<close>, the identity field
  name, \<open>id\<close>, \<open>_uri\<close>) are taken not to name one. \<open>constructor\<close> is the one inherited
  property the connector reads on purpose; it is modelled on its own below.
\<close>

fun get_prop :: "jsval \<Rightarrow> string \<Rightarrow> jsval" where
  "get_prop (JArr xs) k =
     (if k = ''length'' then JNum (int (length xs)) else own (indexed xs) k)"
| "get_prop (JStr s) k =
     (if k = ''length'' then JNum (int (length s))
      else own (indexed (map (\<lambda>c. JStr [c]) s)) k)"
| "get_prop (JObjP p ps) k =
     (case map_of ps k of Some v \<Rightarrow> v | None \<Rightarrow> get_prop p k)"
| "get_prop v k = own (own_entries v) k"

fun js_get :: "jsval \<Rightarrow> string \<Rightarrow> error + jsval" where
  "js_get JUndefined k = Inl TypeError"
| "js_get JNull k = Inl TypeError"
| "js_get v k = Inr (get_prop v k)"

definition js_index :: "jsval \<Rightarrow> nat \<Rightarrow> error + jsval" where
  "js_index v i = js_get v (decimal i)"

text \<open>
  \<open>c.name\<close>, for the value \<open>c\<close> found under \<open>constructor\<close>. None of the built-in
  prototypes of the model's values defines a \<open>name\<close>, so only a plain object can have
  one, as its own property or from a prototype it was given.
\<close>

fun name_of :: "jsval \<Rightarrow> error + jsval" where
  "name_of JUndefined = Inl TypeError"
| "name_of JNull = Inl TypeError"
| "name_of (JObj ps) = Inr (own ps ''name'')"
| "name_of (JObjP p ps) = Inr (get_prop (JObjP p ps) ''name'')"
| "name_of v = Inr JUndefined"

text \<open>
  \<open>v.constructor.name\<close>. A plain object inherits \<open>constructor\<close> from
  \<open>Object.prototype\<close> (the function \<open>Object\<close>, whose name is \<open>'Object'\<close>) unless an own
  property of that name shadows it. An object whose prototype has been replaced finds
  \<open>constructor\<close> on itself or else where the new prototype finds it; with the prototype
  \<open>null\<close> there is none, and reading its \<open>name\<close> raises.
\<close>

fun constructor_name :: "jsval \<Rightarrow> error + jsval" where
  "constructor_name JUndefined = Inl TypeError"
| "constructor_name JNull = Inl TypeError"
| "constructor_name (JBool b) = Inr (JStr ''Boolean'')"
| "constructor_name (JNum n) = Inr (JStr ''Number'')"
| "constructor_name JNaN = Inr (JStr ''Number'')"
| "constructor_name (JStr s) = Inr (JStr ''String'')"
| "constructor_name (JArr xs) = Inr (JStr ''Array'')"
| "constructor_name (JObj ps) =
     (case map_of ps ''constructor'' of
        None \<Rightarrow> Inr (JStr ''Object'')
      | Some c \<Rightarrow> name_of c)"
| "constructor_name (JObjP p ps) =
     (case map_of ps ''constructor'' of
        None \<Rightarrow> constructor_name p
      | Some c \<Rightarrow> name_of c)"
| "constructor_name (JDate t) = Inr (JStr ''Date'')"
| "constructor_name (JRegExp src fl) = Inr (JStr ''RegExp'')"

text \<open>
  The keys that are array indices: the decimal numerals below \<open>2\<^sup>3\<^sup>2 - 1\<close>, without a
  leading zero. \<open>array_index k\<close> is the number that \<open>k\<close> denotes, if it is one.
\<close>

definition digit_of :: "char \<Rightarrow> int option" where
  "digit_of c =
     (let n = (of_char c :: int) in if 48 \<le> n \<and> n \<le> 57 then Some (n - 48) else None)"

fun digits_value :: "int \<Rightarrow> string \<Rightarrow> int option" where
  "digits_value acc [] = Some acc"
| "digits_value acc (c # cs) =
     (case digit_of c of
        None \<Rightarrow> None
      | Some d \<Rightarrow> digits_value (10 * acc + d) cs)"

definition array_index :: "string \<Rightarrow> int option" where
  "array_index k =
     (if k = [] \<or> (hd k = CHR ''0'' \<and> tl k \<noteq> []) then None
      else case digits_value 0 k of
             None \<Rightarrow> None
           | Some n \<Rightarrow> if n < 4294967295 then Some n else None)"

text \<open>
  A new own property takes its place in the enumeration order: an array index goes
  before the first key that is a larger index or no index, any other key goes last.
\<close>

fun insert_index :: "int \<Rightarrow> string \<Rightarrow> 'a \<Rightarrow> (string \<times> 'a) list \<Rightarrow> (string \<times> 'a) list" where
  "insert_index n k v [] = [(k, v)]"
| "insert_index n k v ((k', v') # ps) =
     (case array_index k' of
        Some m \<Rightarrow> if m < n then (k', v') # insert_index n k v ps
                  else (k, v) # (k', v') # ps
      | None \<Rightarrow> (k, v) # (k', v') # ps)"

definition insert_key :: "string \<Rightarrow> 'a \<Rightarrow> (string \<times> 'a) list \<Rightarrow> (string \<times> 'a) list" where
  "insert_key k v ps =
     (case array_index k of
        Some n \<Rightarrow> insert_index n k v ps
      | None \<Rightarrow> ps @ [(k, v)])"

text \<open>
  The assignment \<open>o[k] = v\<close> on a plain object \<open>o\<close>, the only kind of object the
  connector assigns a computed key to. An own property \<open>k\<close> gets the new value where it
  stands. Otherwise the key is looked up along the prototype chain. Every key but one
  is absent there or a writable data property, and the assignment creates the own
  property \<open>k\<close>. The exception is \<open>__proto__\<close>, which \<open>Object.prototype\<close> defines as an
  accessor: the assignment runs its setter, which replaces the prototype of \<open>o\<close> when
  \<open>v\<close> is an object or \<open>null\<close> and does nothing otherwise; \<open>o\<close> gets no own
  property. \<open>reaches_setter p\<close> tells whether the lookup that starts at the prototype
  \<open>p\<close> arrives at that accessor: not when the chain ends in \<open>null\<close> before
  \<open>Object.prototype\<close>, and not when an object on the way has an own property
  \<open>__proto__\<close> (as an object made by \<open>JSON.parse\<close> can have).
\<close>

fun is_object :: "jsval \<Rightarrow> bool" where
  "is_object (JArr xs) = True"
| "is_object (JObj ps) = True"
| "is_object (JObjP p ps) = True"
| "is_object (JDate t) = True"
| "is_object (JRegExp src fl) = True"
| "is_object v = False"

fun reaches_setter :: "jsval \<Rightarrow> bool" where
  "reaches_setter JNull = False"
| "reaches_setter (JObj ps) = (map_of ps ''__proto__'' = None)"
| "reaches_setter (JObjP p ps) = (map_of ps ''__proto__'' = None \<and> reaches_setter p)"
| "reaches_setter v = True"

definition set_prototype :: "jsval \<Rightarrow> (string \<times> jsval) list \<Rightarrow> jsval \<Rightarrow> jsval" where
  "set_prototype o1 ps v = (if is_object v \<or> v = JNull then JObjP v ps else o1)"

fun js_assign :: "jsval \<Rightarrow> string \<Rightarrow> jsval \<Rightarrow> jsval" where
  "js_assign (JObj ps) k v =
     (if map_of ps k \<noteq> None then JObj (AList.update k v ps)
      else if k = ''__proto__'' then set_prototype (JObj ps) ps v
      else JObj (insert_key k v ps))"
| "js_assign (JObjP p ps) k v =
     (if map_of ps k \<noteq> None then JObjP p (AList.update k v ps)
      else if k = ''__proto__'' \<and> reaches_setter p then set_prototype (JObjP p ps) ps v
      else JObjP p (insert_key k v ps))"
| "js_assign v0 k v = v0"

text \<open>
  \<open>delete o[k]\<close> on a value of the model: a plain object loses the own property. The
  keys the connector deletes are field names and \<open>_uri\<close>, which no other value of the
  model has as an own property.
\<close>

fun js_delete :: "jsval \<Rightarrow> string \<Rightarrow> jsval" where
  "js_delete (JObj ps) k = JObj (AList.delete k ps)"
| "js_delete (JObjP p ps) k = JObjP p (AList.delete k ps)"
| "js_delete v k = v"

section \<open>The filter translator \<open>buildWhere\<close>\<close>

text \<open>
  The source holds the connector in two versions: the first (lines 1-447) is written
  against the MarkLogic client, the second (lines 448-1329) against a collection interface
  reached through \<open>execute\<close>. Definitions that belong to one version carry the suffix
  \<open>_v1\<close> or \<open>_v2\<close>. Both versions define \<open>buildWhere\<close> with the same text, except for
  the name the identity field is rewritten to: \<open>'id'\<close> in the first (lines 203-260),
  \<open>'_uri'\<close> in the second (lines 859-918). The model takes that name as the parameter
  \<open>loc\<close>.

  What the function reads from outside:
  \<^item> \<open>idn\<close>, the model's identity field name, \<open>self.idName(model)\<close>;
  \<^item> \<open>R\<close>, the constructor \<open>new RegExp(pattern, flags)\<close>: \<open>None\<close> when it throws a
    SyntaxError, the source and flags of the new object otherwise.
\<close>

type_synonym regexp_ctor = "jsval \<Rightarrow> jsval \<Rightarrow> (string \<times> string) option"

text \<open>
  Lines 225-231 (881-887): the local variables \<open>spec\<close>, \<open>options\<close> and \<open>cond\<close> after the
  shape test \<open>cond && cond.constructor.name === 'Object'\<close>.
\<close>

definition clause_of :: "jsval \<Rightarrow> error + (jsval \<times> jsval \<times> jsval)" where
  "clause_of cond =
     (if \<not> truthy cond then Inr (JBool False, JNull, cond)
      else case constructor_name cond of
        Inl e \<Rightarrow> Inl e
      | Inr n \<Rightarrow>
          if n = JStr ''Object'' then
            (case map fst (own_entries cond) of
               [] \<Rightarrow> Inr (JUndefined, get_prop cond ''options'', get_prop cond ''undefined'')
             | s # _ \<Rightarrow> Inr (JStr s, get_prop cond ''options'', get_prop cond s))
          else Inr (JBool False, JNull, cond))"

text \<open>Lines 232-257 (888-915): the value stored under \<open>query[k]\<close>.\<close>

definition new_RegExp :: "regexp_ctor \<Rightarrow> jsval \<Rightarrow> jsval \<Rightarrow> error + jsval" where
  "new_RegExp R pattern flags =
     (case R pattern flags of
        None \<Rightarrow> Inl SyntaxError
      | Some (src, fl) \<Rightarrow> Inr (JRegExp src fl))"

definition dispatch :: "regexp_ctor \<Rightarrow> string \<Rightarrow> jsval \<Rightarrow> jsval \<Rightarrow> error + jsval" where
  "dispatch R spec options cond =
     (if spec = ''between'' then
        (case js_index cond 0 of
           Inl e \<Rightarrow> Inl e
         | Inr lo \<Rightarrow>
             (case js_index cond 1 of
                Inl e \<Rightarrow> Inl e
              | Inr hi \<Rightarrow> Inr (JObj [(''$gte'', lo), (''$lte'', hi)])))
      else if spec = ''inq'' then
        (case cond of
           JArr xs \<Rightarrow> Inr (JObj [(''$in'', JArr (map (\<lambda>x. x) xs))])
         | _ \<Rightarrow> Inl TypeError)
      else if spec = ''like'' then
        (case new_RegExp R cond options of
           Inl e \<Rightarrow> Inl e
         | Inr r \<Rightarrow> Inr (JObj [(''$regex'', r)]))
      else if spec = ''nlike'' then
        (case new_RegExp R cond options of
           Inl e \<Rightarrow> Inl e
         | Inr r \<Rightarrow> Inr (JObj [(''$not'', r)]))
      else if spec = ''neq'' then Inr (JObj [(''$ne'', cond)])
      else Inr (JObj [(CHR ''$'' # spec, cond)]))"

definition cond_value :: "regexp_ctor \<Rightarrow> jsval \<Rightarrow> error + jsval" where
  "cond_value R c =
     (case clause_of c of
        Inl e \<Rightarrow> Inl e
      | Inr (spec, options, cond) \<Rightarrow>
          (case spec of
             JStr s \<Rightarrow>
               if s \<noteq> [] then dispatch R s options cond
               else if cond = JNull then Inr (JObj [(''$type'', JNum 10)])
               else Inr cond
           | _ \<Rightarrow>
               if cond = JNull then Inr (JObj [(''$type'', JNum 10)])
               else Inr cond))"

text \<open>
  The function itself. \<open>forEach_key\<close> and \<open>forEach_index\<close> are the loop
  \<open>Object.keys(where).forEach\<close> over a plain object and over an array (whose keys are
  its indices); \<open>where_entry\<close> is the loop's body, run on the query built so far;
  \<open>where_map\<close> is \<open>cond.map(function (c) { return self.buildWhere(model, c); })\<close>.
  A date or a regular expression has no own enumerable key. The query starts as \<open>{}\<close>
  and every \<open>query[k] = ...\<close> is the assignment \<open>js_assign\<close>: the key \<open>k\<close> comes from
  the filter, so it can be an array index or \<open>__proto__\<close>.
\<close>

function (sequential) buildWhere_loc :: "regexp_ctor \<Rightarrow> string \<Rightarrow> string \<Rightarrow> jsval \<Rightarrow> error + jsval"
and forEach_key :: "regexp_ctor \<Rightarrow> string \<Rightarrow> string \<Rightarrow> (string \<times> jsval) list
      \<Rightarrow> jsval \<Rightarrow> error + jsval"
and forEach_index :: "regexp_ctor \<Rightarrow> string \<Rightarrow> string \<Rightarrow> nat \<Rightarrow> jsval list
      \<Rightarrow> jsval \<Rightarrow> error + jsval"
and where_entry :: "regexp_ctor \<Rightarrow> string \<Rightarrow> string \<Rightarrow> string \<Rightarrow> jsval
      \<Rightarrow> jsval \<Rightarrow> error + jsval"
and where_map :: "regexp_ctor \<Rightarrow> string \<Rightarrow> string \<Rightarrow> jsval list \<Rightarrow> error + jsval list"
where
  "buildWhere_loc R loc idn w =
     (if w = JNull \<or> typeof w \<noteq> ''object'' then Inr (JObj [])
      else case w of
        JObj ps \<Rightarrow> forEach_key R loc idn ps (JObj [])
      | JObjP p ps \<Rightarrow> forEach_key R loc idn ps (JObj [])
      | JArr xs \<Rightarrow> forEach_index R loc idn 0 xs (JObj [])
      | _ \<Rightarrow> Inr (JObj []))"
| "forEach_key R loc idn [] query = Inr query"
| "forEach_key R loc idn ((k, cond) # rest) query =
     (case where_entry R loc idn k cond query of
        Inl e \<Rightarrow> Inl e
      | Inr query' \<Rightarrow> forEach_key R loc idn rest query')"
| "forEach_index R loc idn i [] query = Inr query"
| "forEach_index R loc idn i (cond # rest) query =
     (case where_entry R loc idn (decimal i) cond query of
        Inl e \<Rightarrow> Inl e
      | Inr query' \<Rightarrow> forEach_index R loc idn (Suc i) rest query')"
| "where_entry R loc idn k0 cond query =
     (let k = (if k0 = idn then loc else k0) in
      if k = ''and'' \<or> k = ''or'' \<or> k = ''nor'' then
        (case cond of
           JArr cs \<Rightarrow>
             (case where_map R loc idn cs of
                Inl e \<Rightarrow> Inl e
              | Inr qs \<Rightarrow>
                  Inr (js_delete (js_assign query (CHR ''$'' # k) (JArr qs)) k))
         | _ \<Rightarrow> Inr (js_delete (js_assign query (CHR ''$'' # k) cond) k))
      else
        (case cond_value R cond of
           Inl e \<Rightarrow> Inl e
         | Inr v \<Rightarrow> Inr (js_assign query k v)))"
| "where_map R loc idn [] = Inr []"
| "where_map R loc idn (c # cs) =
     (case buildWhere_loc R loc idn c of
        Inl e \<Rightarrow> Inl e
      | Inr q \<Rightarrow>
          (case where_map R loc idn cs of
             Inl e \<Rightarrow> Inl e
           | Inr qs \<Rightarrow> Inr (q # qs)))"
  by pat_completeness auto
termination
  by (relation "measure (case_sum
        (case_sum (\<lambda>p. size (snd (snd (snd p))))
                  (\<lambda>p. size_list (size_prod (\<lambda>x. 0) size) (fst (snd (snd (snd p))))))
        (case_sum (\<lambda>p. size_list size (fst (snd (snd (snd (snd p))))))
          (case_sum (\<lambda>p. size (fst (snd (snd (snd (snd p))))))
                    (\<lambda>p. size_list size (snd (snd (snd p)))))))") auto

definition buildWhere_v1 :: "regexp_ctor \<Rightarrow> string \<Rightarrow> jsval \<Rightarrow> error + jsval" where
  "buildWhere_v1 R idn w = buildWhere_loc R ''id'' idn w"

definition buildWhere_v2 :: "regexp_ctor \<Rightarrow> string \<Rightarrow> jsval \<Rightarrow> error + jsval" where
  "buildWhere_v2 R idn w = buildWhere_loc R ''_uri'' idn w"

section \<open>Update payloads: \<open>parseUpdateData\<close>\<close>

text \<open>
  Second version, lines 729-762. \<open>allowExtendedOperators\<close> is the value of
  \<open>this.settings.allowExtendedOperators\<close>; the code compares it with \<open>=== true\<close>.
  \<open>scan_operators\<close> is the \<open>for\<close> loop over \<open>acceptedOperators\<close>, with the object
  \<open>parsedData\<close> and the counter \<open>usedOperators\<close> as its state.
\<close>

definition acceptedOperators :: "string list" where
  "acceptedOperators =
     [''$currentDate'', ''$inc'', ''$max'', ''$min'', ''$mul'', ''$rename'',
      ''$setOnInsert'', ''$set'', ''$unset'',
      ''$addToSet'', ''$pop'', ''$pullAll'', ''$pull'', ''$pushAll'', ''$push'',
      ''$bit'']"

fun scan_operators :: "jsval \<Rightarrow> string list \<Rightarrow> (string \<times> jsval) list \<Rightarrow> nat
      \<Rightarrow> error + ((string \<times> jsval) list \<times> nat)" where
  "scan_operators data [] parsedData usedOperators = Inr (parsedData, usedOperators)"
| "scan_operators data (op # ops) parsedData usedOperators =
     (case js_get data op of
        Inl e \<Rightarrow> Inl e
      | Inr v \<Rightarrow>
          if truthy v
          then scan_operators data ops (AList.update op v parsedData) (Suc usedOperators)
          else scan_operators data ops parsedData usedOperators)"

definition parseUpdateData :: "jsval \<Rightarrow> jsval \<Rightarrow> error + jsval" where
  "parseUpdateData allowExtendedOperators data =
     (if allowExtendedOperators = JBool True then
        (case scan_operators data acceptedOperators [] 0 of
           Inl e \<Rightarrow> Inl e
         | Inr (parsedData, usedOperators) \<Rightarrow>
             if usedOperators = 0
             then Inr (JObj (AList.update ''$set'' data parsedData))
             else Inr (JObj parsedData))
      else Inr (JObj [(''$set'', data)]))"

section \<open>Ordering of a filtered read\<close>










section \<open>Store calls and completion callbacks\<close>

text \<open>
  An operation of the connector issues requests to the store and invokes its completion
  callback. A run of an operation is the list of these events, in order. The model covers
  calls that pass a callback.

  \<^item> First version: the MarkLogic client. \<open>db.documents.write(doc).result()\<close> is a
    promise; the code attaches one handler with \<open>.then(f)\<close> and none for rejection.
    When the promise is fulfilled, \<open>f\<close> runs on the response; when it is rejected, or
    when \<open>f\<close> raises, nothing else runs.
  \<^item> Second version: \<open>this.execute(model, command, ..., callback)\<close>, which runs the
    command on the collection and hands \<open>(err, result)\<close> to the callback once.

  Responses of the client, as far as the code reads them: a write answers with the
  descriptors of the written documents (\<open>response.documents[i].uri\<close>), a removal with the
  removed locators (\<open>response.uris\<close>), a read or a query with a sequence of documents, each
  with its \<open>uri\<close> and its \<open>content\<close>, a plain object. A record payload \<open>data\<close> is a plain
  object as well.
\<close>

type_synonym props = "(string \<times> jsval) list"

datatype request =
    Documents_write jsval
  | Documents_read jsval
  | Documents_remove jsval
  | QueryCollection string "jsval option"
  | Execute string string "jsval list"

datatype event = Request request | Callback "jsval list"

datatype 'a outcome = Fulfilled 'a | Rejected jsval

datatype document = Document jsval props

subsection \<open>First version\<close>

text \<open>
  Lines 141-147 and 166-172, the handler of \<open>create\<close> and of \<open>save\<close>:
  \<open>data.id = response.documents[0].uri; callback(null, data.id)\<close>. With no written
  document, \<open>response.documents[0].uri\<close> raises inside the handler. The result is the
  events and the record \<open>data\<close> as the caller finds it afterwards.
\<close>

fun write_handler :: "props \<Rightarrow> jsval list outcome \<Rightarrow> event list \<times> props" where
  "write_handler data (Fulfilled (u # us)) =
     ([Callback [JNull, u]], AList.update ''id'' u data)"
| "write_handler data (Fulfilled []) = ([], data)"
| "write_handler data (Rejected e) = ([], data)"

definition create_v1 :: "string \<Rightarrow> props \<Rightarrow> jsval list outcome \<Rightarrow> event list \<times> props" where
  "create_v1 model data out =
     (let doc = JObj [(''extension'', JStr ''json''),
                      (''directory'', JStr (model @ ''/'')),
                      (''content'', JObj data),
                      (''contentType'', JStr ''application/json''),
                      (''collections'', JArr [JStr model])]
      in case write_handler data out of
           (evs, data') \<Rightarrow> (Request (Documents_write doc) # evs, data'))"

definition save_v1 :: "string \<Rightarrow> props \<Rightarrow> jsval list outcome \<Rightarrow> event list \<times> props" where
  "save_v1 model data out =
     (let doc = JObj [(''uri'', own data ''id''),
                      (''content'', JObj data),
                      (''contentType'', JStr ''application/json'')]
      in case write_handler data out of
           (evs, data') \<Rightarrow> (Request (Documents_write doc) # evs, data'))"

text \<open>Lines 383-394.\<close>

definition updateAttributes_v1 ::
  "string \<Rightarrow> jsval \<Rightarrow> props \<Rightarrow> jsval list outcome \<Rightarrow> event list \<times> props" where
  "updateAttributes_v1 model uri data out = save_v1 model (AList.update ''id'' uri data) out"

text \<open>
  Lines 278-285 and 936-940 of \<open>all\<close>: \<open>filter.where\<close> after the identity field has been
  moved to \<open>_uri\<close>. \<open>f\<close> is what the code applies to the value: \<open>unescape\<close> in the first
  version, nothing in the second. A string is a primitive, on which \<open>delete\<close> and the
  assignment have no effect. An array that gets the property \<open>_uri\<close> is shown as the
  plain object with the same own properties; the code only enumerates and reads them.
  The key \<open>_uri\<close> is no array index, so a new property \<open>_uri\<close> is the last one.
\<close>

definition id_to_uri :: "(jsval \<Rightarrow> jsval) \<Rightarrow> string \<Rightarrow> jsval \<Rightarrow> jsval" where
  "id_to_uri f idn w =
     (let uri = get_prop w idn in
      if truthy uri then
        (case w of
           JStr s \<Rightarrow> w
         | JObjP p ps \<Rightarrow> JObjP p (AList.update ''_uri'' (f uri) (AList.delete idn ps))
         | _ \<Rightarrow> JObj (AList.update ''_uri'' (f uri) (AList.delete idn (own_entries w))))
      else w)"

text \<open>
  Lines 269-302: the request of \<open>all\<close>. \<open>U\<close> is the global function \<open>unescape\<close>. The
  criteria \<open>qb.where(qb.byExample(query))\<close> are shown by the query they are built from.
  A filter translation that raises makes \<open>all\<close> raise before any request.
\<close>

definition all_v1_request ::
  "regexp_ctor \<Rightarrow> (jsval \<Rightarrow> string) \<Rightarrow> string \<Rightarrow> string \<Rightarrow> jsval \<Rightarrow> error + request" where
  "all_v1_request R U idn model filter0 =
     (let filter = (if truthy filter0 then filter0 else JObj []);
          w0 = get_prop filter ''where'';
          w = (if truthy w0 then id_to_uri (\<lambda>uri. JStr (U uri)) idn w0 else w0)
      in case (if truthy w0 then buildWhere_v1 R idn w else Inr (JObj [])) of
           Inl e \<Rightarrow> Inl e
         | Inr query \<Rightarrow>
             if truthy w \<and> truthy (get_prop w ''_uri'')
             then Inr (Documents_read (get_prop w ''_uri''))
             else if truthy (get_prop filter ''fields'')
             then Inr (QueryCollection model None)
             else Inr (QueryCollection model (Some query)))"

text \<open>Lines 304-311, \<open>processResponse\<close>: the array handed to the callback.\<close>

fun all_v1_results :: "document list \<Rightarrow> jsval list" where
  "all_v1_results [] = []"
| "all_v1_results (Document uri content # rest) =
     JObj (AList.update ''id'' uri content) # all_v1_results rest"

definition all_v1 ::
  "regexp_ctor \<Rightarrow> (jsval \<Rightarrow> string) \<Rightarrow> string \<Rightarrow> string \<Rightarrow> jsval
     \<Rightarrow> document list outcome \<Rightarrow> error + event list" where
  "all_v1 R U idn model filter0 out =
     (case all_v1_request R U idn model filter0 of
        Inl e \<Rightarrow> Inl e
      | Inr req \<Rightarrow>
          Inr (Request req #
               (case out of
                  Fulfilled cursor \<Rightarrow> [Callback [JNull, JArr (all_v1_results cursor)]]
                | Rejected e \<Rightarrow> [])))"

text \<open>
  Lines 320-349. The bulk path is commented out in the source: when the translated
  filter has no truthy \<open>id\<close>, the function returns without a request and without a call
  of the callback.
\<close>

definition destroyAll_v1 ::
  "regexp_ctor \<Rightarrow> (jsval \<Rightarrow> string) \<Rightarrow> string \<Rightarrow> jsval \<Rightarrow> jsval list outcome
     \<Rightarrow> error + event list" where
  "destroyAll_v1 R U idn where0 out =
     (case buildWhere_v1 R idn where0 of
        Inl e \<Rightarrow> Inl e
      | Inr w \<Rightarrow>
          if truthy w \<and> truthy (get_prop w ''id'') then
            Inr (Request (Documents_remove (JStr (U (get_prop w ''id'')))) #
                 (case out of
                    Fulfilled uris \<Rightarrow>
                      [Callback [JNull, JObj [(''count'', JNum (int (length uris)))]]]
                  | Rejected e \<Rightarrow> []))
          else Inr [])"

text \<open>
  Lines 403-415. \<open>updateAll\<close> calls \<open>all\<close> with the \<open>where\<close> argument as the filter and
  with its own function as the callback: when \<open>response[0]\<close> is truthy it copies the
  \<open>id\<close> of that first result into \<open>data\<close> and calls \<open>save\<close> with the caller's callback;
  otherwise it does nothing.
\<close>

definition updateAll_v1 ::
  "regexp_ctor \<Rightarrow> (jsval \<Rightarrow> string) \<Rightarrow> string \<Rightarrow> string \<Rightarrow> jsval \<Rightarrow> props
     \<Rightarrow> document list outcome \<Rightarrow> jsval list outcome \<Rightarrow> error + event list \<times> props" where
  "updateAll_v1 R U idn model where0 data out_all out_save =
     (case all_v1_request R U idn model where0 of
        Inl e \<Rightarrow> Inl e
      | Inr req \<Rightarrow>
          (case out_all of
             Rejected e \<Rightarrow> Inr ([Request req], data)
           | Fulfilled cursor \<Rightarrow>
               (let response = JArr (all_v1_results cursor);
                    first = get_prop response ''0''
                in if truthy first then
                     (case save_v1 model (AList.update ''id'' (get_prop first ''id'') data) out_save of
                        (evs, data') \<Rightarrow> Inr (Request req # evs, data'))
                   else Inr ([Request req], data))))"

subsection \<open>Second version\<close>

text \<open>
  Lines 927-948: the request of \<open>all\<close>, \<open>find\<close> with the query and, when given, the
  field projection.
\<close>

definition all_v2_request ::
  "regexp_ctor \<Rightarrow> string \<Rightarrow> string \<Rightarrow> jsval \<Rightarrow> error + request" where
  "all_v2_request R idn model filter0 =
     (let filter = (if truthy filter0 then filter0 else JObj []);
          w0 = get_prop filter ''where'';
          w = (if truthy w0 then id_to_uri (\<lambda>uri. uri) idn w0 else w0)
      in case (if truthy w0 then buildWhere_v2 R idn w else Inr (JObj [])) of
           Inl e \<Rightarrow> Inl e
         | Inr query \<Rightarrow>
             (let fields = get_prop filter ''fields'' in
              if truthy fields then Inr (Execute model ''find'' [query, fields])
              else Inr (Execute model ''find'' [query])))"

text \<open>
  Lines 1026-1046. The translated filter is an object, so \<open>where || {}\<close> is the filter
  itself.
\<close>

definition destroyAll_v2 ::
  "regexp_ctor \<Rightarrow> string \<Rightarrow> string \<Rightarrow> jsval \<Rightarrow> jsval \<times> jsval \<Rightarrow> error + event list" where
  "destroyAll_v2 R idn model where0 reply =
     (case buildWhere_v2 R idn where0 of
        Inl e \<Rightarrow> Inl e
      | Inr w \<Rightarrow>
          Inr (Request (Execute model ''remove'' [w]) #
               (case reply of
                  (err, info) \<Rightarrow>
                    if truthy err then [Callback [err]]
                    else (case js_get info ''result'' of
                            Inl e \<Rightarrow> []
                          | Inr r \<Rightarrow>
                              [Callback [err, JObj [(''count'',
                                 if truthy r then get_prop r ''n'' else JUndefined)]]]))))"

text \<open>
  Lines 1111-1136. The reply \<open>(err, info)\<close> of the store reaches the function's own
  callback once. When \<open>info\<close> is \<open>null\<close> or \<open>undefined\<close> without an error, reading
  \<open>info.result\<close> raises before the caller's callback is reached.
  The result is what the call returns or raises, with the payload \<open>data\<close> as the caller
  finds it afterwards: \<open>delete data[idName]\<close> has removed the identity field.
\<close>

definition updateAll_v2 ::
  "regexp_ctor \<Rightarrow> jsval \<Rightarrow> string \<Rightarrow> string \<Rightarrow> jsval \<Rightarrow> props
     \<Rightarrow> jsval \<times> jsval \<Rightarrow> (error + event list) \<times> props" where
  "updateAll_v2 R allowExtendedOperators idn model where0 data0 reply =
     (case buildWhere_v2 R idn where0 of
        Inl e \<Rightarrow> (Inl e, data0)
      | Inr w \<Rightarrow>
          (let data1 = AList.delete idn data0 in
           case parseUpdateData allowExtendedOperators (JObj data1) of
             Inl e \<Rightarrow> (Inl e, data1)
           | Inr data \<Rightarrow>
               (Inr (Request (Execute model ''update''
                       [w, data, JObj [(''multi'', JBool True), (''upsert'', JBool False)]]) #
                     (case reply of
                        (err, info) \<Rightarrow>
                          if truthy err then [Callback [err]]
                          else (case js_get info ''result'' of
                                  Inl e \<Rightarrow> []
                                | Inr r \<Rightarrow>
                                    [Callback [err, JObj [(''count'',
                                       if truthy r then get_prop r ''n'' else JUndefined)]]]))),
                data1)))"

text \<open>
  Lines 1076-1102. \<open>setIdValue\<close> is \<open>self.setIdValue(model, object, uri)\<close>, a method of
  the base class \<open>Connector\<close> of the package \<open>loopback-connector\<close>; it is a parameter of
  the model. The locator \<open>uri\<close> is a string.
\<close>

definition updateAttributes_v2 ::
  "jsval \<Rightarrow> string \<Rightarrow> (jsval \<Rightarrow> jsval \<Rightarrow> jsval) \<Rightarrow> string \<Rightarrow> string \<Rightarrow> props
     \<Rightarrow> jsval \<times> jsval \<Rightarrow> error + event list" where
  "updateAttributes_v2 allowExtendedOperators idn setIdValue model uri data0 reply =
     (case parseUpdateData allowExtendedOperators (JObj data0) of
        Inl e \<Rightarrow> Inl e
      | Inr data \<Rightarrow>
          Inr (Request (Execute model ''findAndModify''
                 [JObj [(''_uri'', JStr uri)],
                  JArr [JArr [JStr ''_uri'', JStr ''asc'']],
                  data, JObj []]) #
               (case reply of
                  (err0, result) \<Rightarrow>
                    (let object0 = (if truthy result then get_prop result ''value'' else result);
                         err = (if \<not> truthy err0 \<and> \<not> truthy object0
                                then JStr (''No '' @ model @ '' found for uri '' @ uri)
                                else err0);
                         object1 = setIdValue object0 (JStr uri);
                         object = (if truthy object1 \<and> idn \<noteq> ''_uri''
                                   then js_delete object1 ''_uri'' else object1)
                     in [Callback [err, object]]))))"

text \<open>
  Lines 771-811. The function declares \<open>id\<close> and then reads \<open>uri\<close>, which is declared
  neither in the function nor in the module: the name is looked up in the global object
  \<open>G\<close>, and evaluating \<open>{_uri: uri}\<close> raises a ReferenceError when it is not there.
  The arguments of \<open>this.execute\<close> are evaluated before the call, so the error comes
  before any request. \<open>S\<close> is the string conversion of \<open>'...' + uri\<close>.
  The value of \<open>id\<close> (\<open>self.getIdValue(model, data)\<close>) is never used. As for
  \<open>updateAll\<close>, the result comes with the payload as the caller finds it afterwards.
\<close>

definition updateOrCreate_v2 ::
  "(string \<Rightarrow> jsval option) \<Rightarrow> (jsval \<Rightarrow> string) \<Rightarrow> jsval \<Rightarrow> string
     \<Rightarrow> (jsval \<Rightarrow> jsval \<Rightarrow> jsval) \<Rightarrow> string \<Rightarrow> props
     \<Rightarrow> jsval \<times> jsval \<Rightarrow> (error + event list) \<times> props" where
  "updateOrCreate_v2 G S allowExtendedOperators idn setIdValue model data0 reply =
     (let data1 = AList.delete idn data0 in
      case parseUpdateData allowExtendedOperators (JObj data1) of
        Inl e \<Rightarrow> (Inl e, data1)
      | Inr data \<Rightarrow>
          (case G ''uri'' of
             None \<Rightarrow> (Inl (ReferenceError ''uri''), data1)
           | Some uri \<Rightarrow>
               (Inr (Request (Execute model ''findAndModify''
                       [JObj [(''_uri'', uri)],
                        JArr [JArr [JStr ''_uri'', JStr ''asc'']],
                        data,
                        JObj [(''upsert'', JBool True), (''new'', JBool True)]]) #
                     (case reply of
                        (err0, result) \<Rightarrow>
                          (let object0 = (if truthy result then get_prop result ''value''
                                          else result);
                               err = (if \<not> truthy err0 \<and> \<not> truthy object0
                                      then JStr (''No '' @ model @ '' found for uri '' @ S uri)
                                      else err0);
                               object = (if \<not> truthy err then
                                           (let object1 = setIdValue object0 uri in
                                            if truthy object1 \<and> idn \<noteq> ''_uri''
                                            then js_delete object1 ''_uri'' else object1)
                                         else object0);
                               info = (if truthy result
                                          \<and> truthy (get_prop result ''lastErrorObject'')
                                       then JObj [(''isNewInstance'',
                                              JBool (\<not> truthy (get_prop (get_prop result
                                                ''lastErrorObject'') ''updatedExisting'')))]
                                       else JUndefined)
                           in [Callback [err, object, info]]))),
                data1)))"

section \<open>The filter translator on an object store\<close>

text \<open>
  A value is a primitive or a reference to an object of the store. The store is the list
  of the objects allocated so far; the address of an object is its position, and a new
  object is appended. \<open>HObjectP p ps\<close> is a plain object whose prototype has been
  replaced by \<open>p\<close>, a reference or \<open>null\<close>.
\<close>

datatype hval =
    HUndefined
  | HNull
  | HBool bool
  | HNum int
  | HNaN
  | HStr string
  | HRef nat

datatype hobj =
    HObject "(string \<times> hval) list"
  | HObjectP hval "(string \<times> hval) list"
  | HArray "hval list"
  | HDate int
  | HRegExp string string

type_synonym store = "hobj list"

definition cell :: "store \<Rightarrow> nat \<Rightarrow> hobj option" where
  "cell h a = (if a < length h then Some (h ! a) else None)"

definition alloc :: "store \<Rightarrow> hobj \<Rightarrow> nat \<times> store" where
  "alloc h ob = (length h, h @ [ob])"

fun h_truthy :: "hval \<Rightarrow> bool" where
  "h_truthy HUndefined = False"
| "h_truthy HNull = False"
| "h_truthy (HBool b) = b"
| "h_truthy (HNum n) = (n \<noteq> 0)"
| "h_truthy HNaN = False"
| "h_truthy (HStr s) = (s \<noteq> [])"
| "h_truthy (HRef a) = True"

fun h_typeof :: "hval \<Rightarrow> string" where
  "h_typeof HUndefined = ''undefined''"
| "h_typeof HNull = ''object''"
| "h_typeof (HBool b) = ''boolean''"
| "h_typeof (HNum n) = ''number''"
| "h_typeof HNaN = ''number''"
| "h_typeof (HStr s) = ''string''"
| "h_typeof (HRef a) = ''object''"

text \<open>
  The reads of the first section, on the store. Reading through a reference that the
  store does not hold raises a TypeError. A read that does not find an own property
  goes up the prototype chain. JavaScript keeps that chain free of cycles, so it is no
  longer than the store: the walk takes the length of the store as its bound, and at the
  bound it finds nothing.
\<close>

definition h_own :: "(string \<times> hval) list \<Rightarrow> string \<Rightarrow> hval" where
  "h_own ps k = (case map_of ps k of Some v \<Rightarrow> v | None \<Rightarrow> HUndefined)"

fun h_own_entries :: "store \<Rightarrow> hval \<Rightarrow> (string \<times> hval) list" where
  "h_own_entries h (HRef a) =
     (case cell h a of
        Some (HObject ps) \<Rightarrow> ps
      | Some (HObjectP p ps) \<Rightarrow> ps
      | Some (HArray xs) \<Rightarrow> indexed xs
      | _ \<Rightarrow> [])"
| "h_own_entries h v = []"

fun h_lookup :: "nat \<Rightarrow> store \<Rightarrow> hval \<Rightarrow> string \<Rightarrow> hval" where
  "h_lookup 0 h v k = HUndefined"
| "h_lookup (Suc n) h (HRef a) k =
     (case cell h a of
        Some (HArray xs) \<Rightarrow>
          if k = ''length'' then HNum (int (length xs)) else h_own (indexed xs) k
      | Some (HObjectP p ps) \<Rightarrow>
          (case map_of ps k of Some v \<Rightarrow> v | None \<Rightarrow> h_lookup n h p k)
      | _ \<Rightarrow> h_own (h_own_entries h (HRef a)) k)"
| "h_lookup (Suc n) h (HStr s) k =
     (if k = ''length'' then HNum (int (length s))
      else h_own (indexed (map (\<lambda>c. HStr [c]) s)) k)"
| "h_lookup (Suc n) h v k = HUndefined"

definition h_prop :: "store \<Rightarrow> hval \<Rightarrow> string \<Rightarrow> hval" where
  "h_prop h v k = h_lookup (Suc (length h)) h v k"

fun h_get :: "store \<Rightarrow> hval \<Rightarrow> string \<Rightarrow> error + hval" where
  "h_get h HUndefined k = Inl TypeError"
| "h_get h HNull k = Inl TypeError"
| "h_get h (HRef a) k = (if a < length h then Inr (h_prop h (HRef a) k) else Inl TypeError)"
| "h_get h v k = Inr (h_prop h v k)"

fun h_name_of :: "store \<Rightarrow> hval \<Rightarrow> error + hval" where
  "h_name_of h HUndefined = Inl TypeError"
| "h_name_of h HNull = Inl TypeError"
| "h_name_of h (HRef a) =
     (case cell h a of
        None \<Rightarrow> Inl TypeError
      | Some (HObject ps) \<Rightarrow> Inr (h_own ps ''name'')
      | Some (HObjectP p ps) \<Rightarrow> Inr (h_prop h (HRef a) ''name'')
      | Some ob \<Rightarrow> Inr HUndefined)"
| "h_name_of h v = Inr HUndefined"

fun h_constructor :: "nat \<Rightarrow> store \<Rightarrow> hval \<Rightarrow> error + hval" where
  "h_constructor 0 h v = Inl TypeError"
| "h_constructor (Suc n) h HUndefined = Inl TypeError"
| "h_constructor (Suc n) h HNull = Inl TypeError"
| "h_constructor (Suc n) h (HBool b) = Inr (HStr ''Boolean'')"
| "h_constructor (Suc n) h (HNum i) = Inr (HStr ''Number'')"
| "h_constructor (Suc n) h HNaN = Inr (HStr ''Number'')"
| "h_constructor (Suc n) h (HStr s) = Inr (HStr ''String'')"
| "h_constructor (Suc n) h (HRef a) =
     (case cell h a of
        None \<Rightarrow> Inl TypeError
      | Some (HObject ps) \<Rightarrow>
          (case map_of ps ''constructor'' of
             None \<Rightarrow> Inr (HStr ''Object'')
           | Some c \<Rightarrow> h_name_of h c)
      | Some (HObjectP p ps) \<Rightarrow>
          (case map_of ps ''constructor'' of
             None \<Rightarrow> h_constructor n h p
           | Some c \<Rightarrow> h_name_of h c)
      | Some (HArray xs) \<Rightarrow> Inr (HStr ''Array'')
      | Some (HDate t) \<Rightarrow> Inr (HStr ''Date'')
      | Some (HRegExp src fl) \<Rightarrow> Inr (HStr ''RegExp''))"

definition h_constructor_name :: "store \<Rightarrow> hval \<Rightarrow> error + hval" where
  "h_constructor_name h v = h_constructor (Suc (length h)) h v"

definition h_clause_of :: "store \<Rightarrow> hval \<Rightarrow> error + (hval \<times> hval \<times> hval)" where
  "h_clause_of h cond =
     (if \<not> h_truthy cond then Inr (HBool False, HNull, cond)
      else case h_constructor_name h cond of
        Inl e \<Rightarrow> Inl e
      | Inr n \<Rightarrow>
          if n = HStr ''Object'' then
            (case map fst (h_own_entries h cond) of
               [] \<Rightarrow> Inr (HUndefined, h_prop h cond ''options'', h_prop h cond ''undefined'')
             | s # _ \<Rightarrow> Inr (HStr s, h_prop h cond ''options'', h_prop h cond s))
          else Inr (HBool False, HNull, cond))"

text \<open>
  \<open>new RegExp(pattern, flags)\<close> may read its arguments in the store; it allocates the new
  object. The object literals of lines 232-257 allocate as well.
\<close>

type_synonym h_regexp_ctor = "store \<Rightarrow> hval \<Rightarrow> hval \<Rightarrow> (string \<times> string) option"

definition h_new_RegExp ::
  "h_regexp_ctor \<Rightarrow> store \<Rightarrow> hval \<Rightarrow> hval \<Rightarrow> (error + hval) \<times> store" where
  "h_new_RegExp R h pattern flags =
     (case R h pattern flags of
        None \<Rightarrow> (Inl SyntaxError, h)
      | Some (src, fl) \<Rightarrow> (case alloc h (HRegExp src fl) of (a, h') \<Rightarrow> (Inr (HRef a), h')))"

definition h_new_object :: "store \<Rightarrow> (string \<times> hval) list \<Rightarrow> (error + hval) \<times> store" where
  "h_new_object h ps = (case alloc h (HObject ps) of (a, h') \<Rightarrow> (Inr (HRef a), h'))"

definition h_dispatch ::
  "h_regexp_ctor \<Rightarrow> store \<Rightarrow> string \<Rightarrow> hval \<Rightarrow> hval \<Rightarrow> (error + hval) \<times> store" where
  "h_dispatch R h spec options cond =
     (if spec = ''between'' then
        (case h_get h cond (decimal 0) of
           Inl e \<Rightarrow> (Inl e, h)
         | Inr lo \<Rightarrow>
             (case h_get h cond (decimal 1) of
                Inl e \<Rightarrow> (Inl e, h)
              | Inr hi \<Rightarrow> h_new_object h [(''$gte'', lo), (''$lte'', hi)]))
      else if spec = ''inq'' then
        (case cond of
           HRef a \<Rightarrow>
             (case cell h a of
                Some (HArray xs) \<Rightarrow>
                  (case alloc h (HArray (map (\<lambda>x. x) xs)) of
                     (b, h') \<Rightarrow> h_new_object h' [(''$in'', HRef b)])
              | _ \<Rightarrow> (Inl TypeError, h))
         | _ \<Rightarrow> (Inl TypeError, h))
      else if spec = ''like'' then
        (case h_new_RegExp R h cond options of
           (Inl e, h') \<Rightarrow> (Inl e, h')
         | (Inr r, h') \<Rightarrow> h_new_object h' [(''$regex'', r)])
      else if spec = ''nlike'' then
        (case h_new_RegExp R h cond options of
           (Inl e, h') \<Rightarrow> (Inl e, h')
         | (Inr r, h') \<Rightarrow> h_new_object h' [(''$not'', r)])
      else if spec = ''neq'' then h_new_object h [(''$ne'', cond)]
      else h_new_object h [(CHR ''$'' # spec, cond)])"

definition h_cond_value :: "h_regexp_ctor \<Rightarrow> store \<Rightarrow> hval \<Rightarrow> (error + hval) \<times> store" where
  "h_cond_value R h c =
     (case h_clause_of h c of
        Inl e \<Rightarrow> (Inl e, h)
      | Inr (spec, options, cond) \<Rightarrow>
          (case spec of
             HStr s \<Rightarrow>
               if s \<noteq> [] then h_dispatch R h s options cond
               else if cond = HNull then h_new_object h [(''$type'', HNum 10)]
               else (Inr cond, h)
           | _ \<Rightarrow>
               if cond = HNull then h_new_object h [(''$type'', HNum 10)]
               else (Inr cond, h)))"

text \<open>
  Assignment and deletion on the object at an address, as \<open>js_assign\<close> and
  \<open>js_delete\<close> define them on values. The object assigned to is the query, which is
  newer than every object a filter refers to: the new prototype cannot lead back to it,
  so the setter's test for a cycle never fails.
\<close>

fun h_reaches_setter :: "nat \<Rightarrow> store \<Rightarrow> hval \<Rightarrow> bool" where
  "h_reaches_setter 0 h p = False"
| "h_reaches_setter (Suc n) h HNull = False"
| "h_reaches_setter (Suc n) h (HRef a) =
     (case cell h a of
        Some (HObject ps) \<Rightarrow> map_of ps ''__proto__'' = None
      | Some (HObjectP p ps) \<Rightarrow> map_of ps ''__proto__'' = None \<and> h_reaches_setter n h p
      | _ \<Rightarrow> True)"
| "h_reaches_setter (Suc n) h v = True"

fun h_is_object :: "hval \<Rightarrow> bool" where
  "h_is_object (HRef a) = True"
| "h_is_object v = False"

definition h_set_prototype :: "store \<Rightarrow> nat \<Rightarrow> (string \<times> hval) list \<Rightarrow> hval \<Rightarrow> store" where
  "h_set_prototype h q ps v =
     (if h_is_object v \<or> v = HNull then h[q := HObjectP v ps] else h)"

definition h_assign :: "store \<Rightarrow> nat \<Rightarrow> string \<Rightarrow> hval \<Rightarrow> store" where
  "h_assign h q k v =
     (case cell h q of
        Some (HObject ps) \<Rightarrow>
          if map_of ps k \<noteq> None then h[q := HObject (AList.update k v ps)]
          else if k = ''__proto__'' then h_set_prototype h q ps v
          else h[q := HObject (insert_key k v ps)]
      | Some (HObjectP p ps) \<Rightarrow>
          if map_of ps k \<noteq> None then h[q := HObjectP p (AList.update k v ps)]
          else if k = ''__proto__'' \<and> h_reaches_setter (Suc (length h)) h p
          then h_set_prototype h q ps v
          else h[q := HObjectP p (insert_key k v ps)]
      | _ \<Rightarrow> h)"

definition h_delete :: "store \<Rightarrow> nat \<Rightarrow> string \<Rightarrow> store" where
  "h_delete h q k =
     (case cell h q of
        Some (HObject ps) \<Rightarrow> h[q := HObject (AList.delete k ps)]
      | Some (HObjectP p ps) \<Rightarrow> h[q := HObjectP p (AList.delete k ps)]
      | _ \<Rightarrow> h)"

text \<open>
  \<open>buildWhere\<close> on the store. \<open>var query = {}\<close> allocates the query; every
  \<open>query[k] = ...\<close> and \<open>delete query[k]\<close> updates the object at that address;
  \<open>where[k]\<close> is read from the store at each turn of the loop over
  \<open>Object.keys(where)\<close>. Objects of the store may refer to each other in a cycle, so the
  depth of the nested calls is bounded by \<open>n\<close>, as the call stack bounds it: when the
  bound is reached the call raises a RangeError. The result is the value returned or the
  error raised, with the store as the call leaves it.
\<close>

function (sequential)
    buildWhere_st :: "nat \<Rightarrow> h_regexp_ctor \<Rightarrow> string \<Rightarrow> string \<Rightarrow> hval \<Rightarrow> store
      \<Rightarrow> (error + hval) \<times> store"
and forEach_st :: "nat \<Rightarrow> h_regexp_ctor \<Rightarrow> string \<Rightarrow> string \<Rightarrow> hval \<Rightarrow> nat \<Rightarrow> string list
      \<Rightarrow> store \<Rightarrow> error option \<times> store"
and where_entry_st :: "nat \<Rightarrow> h_regexp_ctor \<Rightarrow> string \<Rightarrow> string \<Rightarrow> hval \<Rightarrow> nat \<Rightarrow> string
      \<Rightarrow> store \<Rightarrow> error option \<times> store"
and where_map_st :: "nat \<Rightarrow> h_regexp_ctor \<Rightarrow> string \<Rightarrow> string \<Rightarrow> hval list \<Rightarrow> store
      \<Rightarrow> (error + hval list) \<times> store"
where
  "buildWhere_st 0 R loc idn w h = (Inl RangeError, h)"
| "buildWhere_st (Suc n) R loc idn w h =
     (case alloc h (HObject []) of
        (query, h1) \<Rightarrow>
          if w = HNull \<or> h_typeof w \<noteq> ''object'' then (Inr (HRef query), h1)
          else (case forEach_st n R loc idn w query (map fst (h_own_entries h1 w)) h1 of
                  (Some e, h2) \<Rightarrow> (Inl e, h2)
                | (None, h2) \<Rightarrow> (Inr (HRef query), h2)))"
| "forEach_st n R loc idn w query [] h = (None, h)"
| "forEach_st n R loc idn w query (k # ks) h =
     (case where_entry_st n R loc idn w query k h of
        (Some e, h') \<Rightarrow> (Some e, h')
      | (None, h') \<Rightarrow> forEach_st n R loc idn w query ks h')"
| "where_entry_st n R loc idn w query k0 h =
     (let cond = h_prop h w k0;
          k = (if k0 = idn then loc else k0)
      in if k = ''and'' \<or> k = ''or'' \<or> k = ''nor'' then
           (case (case cond of
                    HRef a \<Rightarrow>
                      (case cell h a of
                         Some (HArray cs) \<Rightarrow>
                           (case where_map_st n R loc idn cs h of
                              (Inl e, h') \<Rightarrow> (Inl e, h')
                            | (Inr qs, h') \<Rightarrow>
                                (case alloc h' (HArray qs) of
                                   (b, h'') \<Rightarrow> (Inr (HRef b), h'')))
                       | _ \<Rightarrow> (Inr cond, h))
                  | _ \<Rightarrow> (Inr cond, h)) of
              (Inl e, h') \<Rightarrow> (Some e, h')
            | (Inr c, h') \<Rightarrow>
                (None, h_delete (h_assign h' query (CHR ''$'' # k) c) query k))
         else
           (case h_cond_value R h cond of
              (Inl e, h') \<Rightarrow> (Some e, h')
            | (Inr v, h') \<Rightarrow> (None, h_assign h' query k v)))"
| "where_map_st n R loc idn [] h = (Inr [], h)"
| "where_map_st n R loc idn (c # cs) h =
     (case buildWhere_st n R loc idn c h of
        (Inl e, h') \<Rightarrow> (Inl e, h')
      | (Inr q, h') \<Rightarrow>
          (case where_map_st n R loc idn cs h' of
             (Inl e, h'') \<Rightarrow> (Inl e, h'')
           | (Inr qs, h'') \<Rightarrow> (Inr (q # qs), h'')))"
  by pat_completeness auto
termination
  by (relation "inv_image (less_than <*lex*> less_than <*lex*> less_than)
        (case_sum
          (case_sum (\<lambda>p. (fst p, 0::nat, 0::nat))
                    (\<lambda>p. (fst p, 3, length (fst (snd (snd (snd (snd (snd (snd p))))))))))
          (case_sum (\<lambda>p. (fst p, 2, 0))
                    (\<lambda>p. (fst p, 1, Suc (length (fst (snd (snd (snd (snd p))))))))))") auto


text \<open>
  \<open>extends h h'\<close>: the store \<open>h'\<close> holds every object of \<open>h\<close>, unchanged, at its
  address. \<open>extends_but q h h'\<close> allows the object at \<open>q\<close> to differ.
\<close>

definition extends :: "store \<Rightarrow> store \<Rightarrow> bool" where
  "extends h h' = (length h \<le> length h' \<and> (\<forall>a < length h. h' ! a = h ! a))"

definition extends_but :: "nat \<Rightarrow> store \<Rightarrow> store \<Rightarrow> bool" where
  "extends_but q h h' = (length h \<le> length h' \<and> (\<forall>a < length h. a \<noteq> q \<longrightarrow> h' ! a = h ! a))"

text \<open>For the examples: the constructor on a string pattern, and a small store.\<close>

fun plain_h_RegExp :: h_regexp_ctor where
  "plain_h_RegExp h (HStr s) HUndefined = Some (s, [])"
| "plain_h_RegExp h (HStr s) (HStr fl) = Some (s, fl)"
| "plain_h_RegExp h pattern flags = None"

definition example_store :: store where
  "example_store =
     [HObject [(''id'', HStr ''Widget/ab12.json''), (''age'', HRef 1)],
      HObject [(''between'', HRef 2)],
      HArray [HNum 18, HNum 30]]"

section \<open>Reading a run\<close>

text \<open>The invocations of the completion callback in a run, with their arguments.\<close>

fun callbacks :: "event list \<Rightarrow> jsval list list" where
  "callbacks [] = []"
| "callbacks (Callback args # evs) = args # callbacks evs"
| "callbacks (Request r # evs) = callbacks evs"

text \<open>
  For the examples: a \<open>RegExp\<close> constructor that takes a string pattern as it is, and
  \<open>unescape\<close> on strings that hold no escape sequence.
\<close>

fun plain_RegExp :: regexp_ctor where
  "plain_RegExp (JStr s) JUndefined = Some (s, [])"
| "plain_RegExp (JStr s) (JStr fl) = Some (s, fl)"
| "plain_RegExp pattern flags = None"

fun plain_unescape :: "jsval \<Rightarrow> string" where
  "plain_unescape (JStr s) = s"
| "plain_unescape v = []"

text \<open>
  For the examples as well: \<open>setIdValue\<close> as the base class \<open>Connector\<close> defines it
  (\<open>if (data) data[idName] = value\<close>) on a document that is a plain object, \<open>null\<close> or
  \<open>undefined\<close>, and the string conversion of a string.
\<close>

definition connector_setIdValue :: "string \<Rightarrow> jsval \<Rightarrow> jsval \<Rightarrow> jsval" where
  "connector_setIdValue idn d v = (if truthy d then js_assign d idn v else d)"

fun plain_toString :: "jsval \<Rightarrow> string" where
  "plain_toString (JStr s) = s"
| "plain_toString v = []"


section \<open>Facts about the helpers\<close>

lemma digit_nth: "n < 10 \<Longrightarrow> ''0123456789'' ! n \<in> set ''0123456789''"
  by (rule nth_mem) simp

lemma decimal_digits: "c \<in> set (decimal n) \<Longrightarrow> c \<in> set ''0123456789''"
proof (induction n rule: decimal.induct)
  case (1 n)
  show ?case
  proof (cases "n < 10")
    case True
    then have "decimal n = [''0123456789'' ! n]" by (subst decimal.simps) simp
    with "1.prems" have "c = ''0123456789'' ! n" by simp
    with digit_nth[OF True] show ?thesis by simp
  next
    case False
    then have "decimal n = decimal (n div 10) @ [''0123456789'' ! (n mod 10)]"
      by (subst decimal.simps) simp
    with "1.prems" have "c \<in> set (decimal (n div 10)) \<or> c = ''0123456789'' ! (n mod 10)"
      by auto
    then show ?thesis
    proof
      assume "c \<in> set (decimal (n div 10))"
      with "1.IH" False show ?thesis by simp
    next
      assume c: "c = ''0123456789'' ! (n mod 10)"
      have "n mod 10 < 10" by (rule mod_less_divisor) simp
      from digit_nth[OF this] c show ?thesis by simp
    qed
  qed
qed

lemma decimal_0: "decimal 0 = ''0''"
  by (subst decimal.simps) simp

lemma decimal_1: "decimal (Suc 0) = ''1''"
  by (subst decimal.simps) simp

text \<open>A key that does not start with a digit is not an index.\<close>

lemma own_indexed_non_digit:
  assumes "k \<noteq> []" and "hd k \<notin> set ''0123456789''"
  shows "own (indexed xs) k = JUndefined"
proof -
  have "k \<notin> set (map decimal [0..<length xs])"
  proof
    assume "k \<in> set (map decimal [0..<length xs])"
    then obtain i where "k = decimal i" by auto
    with assms(1) have "hd k \<in> set (decimal i)" by (metis hd_in_set)
    from decimal_digits[OF this] assms(2) show False by simp
  qed
  then have "map_of (indexed xs) k = None"
    unfolding indexed_def map_of_eq_None_iff
    by (metis (no_types, lifting) image_iff in_set_zipE prod.collapse)
  then show ?thesis by (simp add: own_def)
qed

lemma id_to_uri_non_object:
  "w = JNull \<or> typeof w \<noteq> ''object'' \<Longrightarrow> id_to_uri f idn w = w"
  by (cases w) (simp_all add: id_to_uri_def Let_def own_def)

lemma js_index_pair:
  "js_index (JArr [lo, hi]) 0 = Inr lo" "js_index (JArr [lo, hi]) (Suc 0) = Inr hi"
  by (simp_all add: js_index_def indexed_def own_def decimal_0 decimal_1 upt_rec)

lemma between_value:
  "cond_value R (JObj [(''between'', JArr [lo, hi])]) =
     Inr (JObj [(''$gte'', lo), (''$lte'', hi)])"
  by (simp add: cond_value_def clause_of_def dispatch_def own_def js_index_pair)

lemma clause_spec_truthy:
  "clause_of c = Inr (spec, opts, c') \<Longrightarrow> truthy spec \<Longrightarrow>
     c \<noteq> JNull \<and> typeof c = ''object'' \<and> constructor_name c = Inr (JStr ''Object'')"
  by (cases c) (auto simp: clause_of_def split: if_splits sum.splits list.splits)

lemma cond_value_literal:
  "c \<noteq> JNull \<Longrightarrow>
   \<not> truthy c \<or> (\<exists>n. constructor_name c = Inr n \<and> n \<noteq> JStr ''Object'') \<Longrightarrow>
     cond_value R c = Inr c"
  by (auto simp: cond_value_def clause_of_def)

lemma cond_value_null: "cond_value R JNull = Inr (JObj [(''$type'', JNum 10)])"
  by (simp add: cond_value_def clause_of_def)

text \<open>The first assignment to an object, and the own property an assignment creates.\<close>

lemma insert_key_Nil: "insert_key k v [] = [(k, v)]"
  by (simp add: insert_key_def split: option.splits)

lemma map_of_insert_index:
  "map_of ps k = None \<Longrightarrow> map_of (insert_index n k v ps) k = Some v"
  by (induction ps) (auto split: option.splits if_splits)

lemma map_of_insert_key: "map_of ps k = None \<Longrightarrow> map_of (insert_key k v ps) k = Some v"
  by (auto simp add: insert_key_def map_of_insert_index map_add_def split: option.splits)


text \<open>
  A filter with one entry whose key is neither a combinator nor \<open>__proto__\<close>.
\<close>

lemma singleton_filter:
  assumes "k = idn \<or> k \<notin> {''and'', ''or'', ''nor'', ''__proto__''}"
    and "cond_value R c = Inr v"
  shows "buildWhere_v1 R idn (JObj [(k, c)]) = Inr (JObj [(if k = idn then ''id'' else k, v)])"
    and "buildWhere_v2 R idn (JObj [(k, c)]) = Inr (JObj [(if k = idn then ''_uri'' else k, v)])"
  using assms by (auto simp add: buildWhere_v1_def buildWhere_v2_def insert_key_Nil)

lemma update_fresh: "k \<notin> fst ` set al \<Longrightarrow> AList.update k v al = al @ [(k, v)]"
  by (induction al) auto

lemma js_get_defined:
  "data \<noteq> JUndefined \<Longrightarrow> data \<noteq> JNull \<Longrightarrow> js_get data k = Inr (get_prop data k)"
  by (cases data) simp_all

text \<open>
  The loop of \<open>parseUpdateData\<close> on a payload that is neither \<open>null\<close> nor \<open>undefined\<close>:
  it appends, in the order of the list, the operators whose value in the payload is
  truthy, and counts them.
\<close>

lemma scan_operators_result:
  assumes "data \<noteq> JUndefined" and "data \<noteq> JNull"
  shows "distinct ops \<Longrightarrow> set ops \<inter> fst ` set parsed = {} \<Longrightarrow>
     scan_operators data ops parsed used =
       Inr (parsed @ map (\<lambda>op. (op, get_prop data op))
                       (filter (\<lambda>op. truthy (get_prop data op)) ops),
            used + length (filter (\<lambda>op. truthy (get_prop data op)) ops))"
proof (induction ops arbitrary: parsed used)
  case Nil
  then show ?case by simp
next
  case (Cons op ops)
  have fresh: "op \<notin> fst ` set parsed" using Cons.prems by auto
  have d: "distinct ops" using Cons.prems by simp
  show ?case
  proof (cases "truthy (get_prop data op)")
    case True
    have "set ops \<inter> fst ` set (parsed @ [(op, get_prop data op)]) = {}"
      using Cons.prems by auto
    from Cons.IH[OF d this] True show ?thesis
      by (simp add: js_get_defined[OF assms] update_fresh[OF fresh])
  next
    case False
    have "set ops \<inter> fst ` set parsed = {}" using Cons.prems by auto
    from Cons.IH[OF d this] False show ?thesis
      by (simp add: js_get_defined[OF assms])
  qed
qed

lemma distinct_acceptedOperators: "distinct acceptedOperators"
  by (simp add: acceptedOperators_def)

lemma parseUpdateData_enabled:
  assumes "data \<noteq> JUndefined" and "data \<noteq> JNull"
  shows "parseUpdateData (JBool True) data =
          Inr (JObj (let forwarded = map (\<lambda>op. (op, get_prop data op))
                         (filter (\<lambda>op. truthy (get_prop data op)) acceptedOperators)
                     in if forwarded = [] then [(''$set'', data)] else forwarded))"
proof -
  have s: "scan_operators data acceptedOperators [] 0 =
       Inr (map (\<lambda>op. (op, get_prop data op))
              (filter (\<lambda>op. truthy (get_prop data op)) acceptedOperators),
            length (filter (\<lambda>op. truthy (get_prop data op)) acceptedOperators))"
    using scan_operators_result[OF assms, of acceptedOperators "[]" 0]
      distinct_acceptedOperators
    by simp
  show ?thesis by (simp add: parseUpdateData_def s Let_def)
qed

lemma parseUpdateData_object: "\<exists>u. parseUpdateData flag (JObj ps) = Inr u"
  using parseUpdateData_enabled[of "JObj ps"]
  by (cases "flag = JBool True") (auto simp add: parseUpdateData_def)























section \<open>The filter translator: results\<close>

text \<open>
  C9. A \<open>where\<close> that is not a structured mapping (\<open>null\<close>, or a value whose \<open>typeof\<close>
  is not \<open>'object'\<close>) is translated to the empty native query \<open>{}\<close>, without raising,
  in both versions. A filtered read whose \<open>where\<close> is such a value therefore sends the
  store the request of an unfiltered read: the query is \<open>{}\<close>, and only the field
  projection of the filter is passed on.
\<close>

theorem buildWhere_non_mapping_is_empty:
  assumes "w = JNull \<or> typeof w \<noteq> ''object''"
  shows "buildWhere_v1 R idn w = Inr (JObj [])
       \<and> buildWhere_v2 R idn w = Inr (JObj [])
       \<and> (own fs ''where'' = w \<longrightarrow>
            all_v1_request R U idn model (JObj fs) =
              Inr (if truthy (own fs ''fields'') then QueryCollection model None
                   else QueryCollection model (Some (JObj [])))
          \<and> all_v2_request R idn model (JObj fs) =
              Inr (Execute model ''find''
                     (if truthy (own fs ''fields'') then [JObj [], own fs ''fields'']
                      else [JObj []])))"
proof -
  have b1: "buildWhere_v1 R idn w = Inr (JObj [])"
    using assms by (simp add: buildWhere_v1_def)
  have b2: "buildWhere_v2 R idn w = Inr (JObj [])"
    using assms by (simp add: buildWhere_v2_def)
  have u: "\<not> (truthy w \<and> truthy (get_prop w ''_uri''))"
    using assms by (cases w) (simp_all add: own_indexed_non_digit, simp_all add: own_def)
  show ?thesis
    using b1 b2 u id_to_uri_non_object[OF assms]
    by (auto simp add: all_v1_request_def all_v2_request_def Let_def)
qed

theorem buildWhere_non_mapping_is_empty_witness:
  "(JStr ''abc'' = JNull \<or> typeof (JStr ''abc'') \<noteq> ''object'')
   \<and> own [(''where'', JStr ''abc'')] ''where'' = JStr ''abc''
   \<and> buildWhere_v1 plain_RegExp ''id'' (JStr ''abc'') = Inr (JObj [])
   \<and> buildWhere_v2 plain_RegExp ''id'' (JStr ''abc'') = Inr (JObj [])
   \<and> all_v1_request plain_RegExp plain_unescape ''id'' ''Widget''
        (JObj [(''where'', JStr ''abc'')]) = Inr (QueryCollection ''Widget'' (Some (JObj [])))
   \<and> all_v2_request plain_RegExp ''id'' ''Widget''
        (JObj [(''where'', JStr ''abc'')]) = Inr (Execute ''Widget'' ''find'' [JObj []])"
  using buildWhere_non_mapping_is_empty
    [of "JStr ''abc''" plain_RegExp "''id''" "[(''where'', JStr ''abc'')]"
        plain_unescape "''Widget''"]
  by (simp add: own_def)

text \<open>
  C3. For every field name \<open>k\<close> and operands \<open>lo\<close>, \<open>hi\<close>, the filter entry
  \<open>k: {between: [lo, hi]}\<close> is to give the native query an entry for \<open>k\<close> that equals
  \<open>{$gte: lo, $lte: hi}\<close>. The loop stores the entry with \<open>query[k] = ...\<close> on a query
  that starts as \<open>{}\<close>, and it does not guard the key. \<open>__proto__\<close> is an own key of a
  filter that comes from \<open>JSON.parse\<close>, as in \<open>{"__proto__": {"between": [lo, hi]}}\<close>;
  for this key the assignment runs the setter that \<open>Object.prototype\<close> defines. In both
  versions the returned query has no entry for the key: it has no own property at all,
  and the range object has become its prototype.
\<close>

theorem proto_key_gets_no_entry:
  "buildWhere_v1 R ''id'' (JObj [(''__proto__'', JObj [(''between'', JArr [lo, hi])])])
     = Inr (JObjP (JObj [(''$gte'', lo), (''$lte'', hi)]) [])
   \<and> buildWhere_v2 R ''id'' (JObj [(''__proto__'', JObj [(''between'', JArr [lo, hi])])])
     = Inr (JObjP (JObj [(''$gte'', lo), (''$lte'', hi)]) [])
   \<and> own_entries (JObjP (JObj [(''$gte'', lo), (''$lte'', hi)]) []) = []"
  by (simp add: buildWhere_v1_def buildWhere_v2_def between_value set_prototype_def)

text \<open>
  On every other field name the translation of a range is as specified. For a key \<open>k\<close>
  that is the identity field or is not a reserved combinator name (\<open>and\<close>, \<open>or\<close>,
  \<open>nor\<close>), the loop's body assigns \<open>{$gte: lo, $lte: hi}\<close> to the key in the query
  built so far, with the key rewritten to the locator field when it is the identity
  field. When that key is not \<open>__proto__\<close>, the assignment gives a plain query the own
  property, and the filter that consists of this entry is translated to the query that
  consists of the range under the key.
\<close>

theorem between_is_inclusive_range:
  assumes "k = idn \<or> k \<notin> {''and'', ''or'', ''nor'', ''__proto__''}"
  shows "where_entry R ''id'' idn k (JObj [(''between'', JArr [lo, hi])]) query
           = Inr (js_assign query (if k = idn then ''id'' else k)
                    (JObj [(''$gte'', lo), (''$lte'', hi)]))
       \<and> where_entry R ''_uri'' idn k (JObj [(''between'', JArr [lo, hi])]) query
           = Inr (js_assign query (if k = idn then ''_uri'' else k)
                    (JObj [(''$gte'', lo), (''$lte'', hi)]))
       \<and> own (own_entries (js_assign (JObj ps) (if k = idn then ''id'' else k)
                 (JObj [(''$gte'', lo), (''$lte'', hi)]))) (if k = idn then ''id'' else k)
           = JObj [(''$gte'', lo), (''$lte'', hi)]
       \<and> own (own_entries (js_assign (JObj ps) (if k = idn then ''_uri'' else k)
                 (JObj [(''$gte'', lo), (''$lte'', hi)]))) (if k = idn then ''_uri'' else k)
           = JObj [(''$gte'', lo), (''$lte'', hi)]
       \<and> buildWhere_v1 R idn (JObj [(k, JObj [(''between'', JArr [lo, hi])])])
           = Inr (JObj [(if k = idn then ''id'' else k,
                         JObj [(''$gte'', lo), (''$lte'', hi)])])
       \<and> buildWhere_v2 R idn (JObj [(k, JObj [(''between'', JArr [lo, hi])])])
           = Inr (JObj [(if k = idn then ''_uri'' else k,
                         JObj [(''$gte'', lo), (''$lte'', hi)])])"
proof -
  have n1: "(if k = idn then ''id'' else k) \<noteq> ''__proto__''"
    and n2: "(if k = idn then ''_uri'' else k) \<noteq> ''__proto__''"
    using assms by auto
  have w1: "where_entry R ''id'' idn k (JObj [(''between'', JArr [lo, hi])]) query
           = Inr (js_assign query (if k = idn then ''id'' else k)
                    (JObj [(''$gte'', lo), (''$lte'', hi)]))"
    using assms by (auto simp add: between_value)
  have w2: "where_entry R ''_uri'' idn k (JObj [(''between'', JArr [lo, hi])]) query
           = Inr (js_assign query (if k = idn then ''_uri'' else k)
                    (JObj [(''$gte'', lo), (''$lte'', hi)]))"
    using assms by (auto simp add: between_value)
  have o: "\<And>j v. j \<noteq> ''__proto__'' \<Longrightarrow> own (own_entries (js_assign (JObj ps) j v)) j = v"
    by (auto simp add: own_def map_of_insert_key update_conv')
  show ?thesis
    using w1 w2 o[OF n1] o[OF n2] singleton_filter[OF assms between_value] by simp
qed

theorem between_is_inclusive_range_witness:
  "(''age'' = ''id'' \<or> ''age'' \<notin> {''and'', ''or'', ''nor'', ''__proto__''})
   \<and> buildWhere_v1 plain_RegExp ''id''
        (JObj [(''age'', JObj [(''between'', JArr [JNum 18, JNum 30])])])
       = Inr (JObj [(''age'', JObj [(''$gte'', JNum 18), (''$lte'', JNum 30)])])
   \<and> buildWhere_v2 plain_RegExp ''id''
        (JObj [(''age'', JObj [(''between'', JArr [JNum 18, JNum 30])])])
       = Inr (JObj [(''age'', JObj [(''$gte'', JNum 18), (''$lte'', JNum 30)])])"
  using between_is_inclusive_range
    [of "''age''" "''id''" plain_RegExp "JNum 18" "JNum 30" "JObj []" "[]"]
  by simp

text \<open>
  The dispatch on the values whose constructor name can be read. A condition value is
  dispatched as an operator clause (the variable \<open>spec\<close> is truthy) only when it is a
  non-null object whose constructor name is \<open>'Object'\<close>. A non-null value that is falsy,
  or whose \<open>constructor.name\<close> exists and is not \<open>'Object'\<close> (an array, a date, a regular
  expression, a number, a string, a boolean), is emitted unchanged as the literal
  condition on its field. \<open>null\<close> is translated to the null-type test \<open>{$type: 10}\<close>.
  The field is any key that is the identity field or is neither a reserved combinator
  name nor \<open>__proto__\<close>.
\<close>

theorem operator_clause_dispatch:
  "(clause_of p = Inr (spec, opts, p') \<and> truthy spec \<longrightarrow>
      p \<noteq> JNull \<and> typeof p = ''object'' \<and> constructor_name p = Inr (JStr ''Object''))
   \<and> ((k = idn \<or> k \<notin> {''and'', ''or'', ''nor'', ''__proto__''}) \<and> c \<noteq> JNull
        \<and> (\<not> truthy c \<or> (\<exists>n. constructor_name c = Inr n \<and> n \<noteq> JStr ''Object'')) \<longrightarrow>
        buildWhere_v1 R idn (JObj [(k, c)]) = Inr (JObj [(if k = idn then ''id'' else k, c)])
      \<and> buildWhere_v2 R idn (JObj [(k, c)]) = Inr (JObj [(if k = idn then ''_uri'' else k, c)]))
   \<and> ((j = idn \<or> j \<notin> {''and'', ''or'', ''nor'', ''__proto__''}) \<longrightarrow>
        buildWhere_v1 R idn (JObj [(j, JNull)])
          = Inr (JObj [(if j = idn then ''id'' else j, JObj [(''$type'', JNum 10)])])
      \<and> buildWhere_v2 R idn (JObj [(j, JNull)])
          = Inr (JObj [(if j = idn then ''_uri'' else j, JObj [(''$type'', JNum 10)])]))"
proof (intro conjI impI)
  assume "clause_of p = Inr (spec, opts, p') \<and> truthy spec"
  then show "p \<noteq> JNull" and "typeof p = ''object''"
    and "constructor_name p = Inr (JStr ''Object'')"
    using clause_spec_truthy[of p spec opts p'] by simp_all
next
  assume a: "(k = idn \<or> k \<notin> {''and'', ''or'', ''nor'', ''__proto__''}) \<and> c \<noteq> JNull
        \<and> (\<not> truthy c \<or> (\<exists>n. constructor_name c = Inr n \<and> n \<noteq> JStr ''Object''))"
  then have v: "cond_value R c = Inr c" using cond_value_literal[of c R] by blast
  from a have k: "k = idn \<or> k \<notin> {''and'', ''or'', ''nor'', ''__proto__''}" by blast
  show "buildWhere_v1 R idn (JObj [(k, c)]) = Inr (JObj [(if k = idn then ''id'' else k, c)])"
    by (rule singleton_filter(1)[OF k v])
  show "buildWhere_v2 R idn (JObj [(k, c)]) = Inr (JObj [(if k = idn then ''_uri'' else k, c)])"
    by (rule singleton_filter(2)[OF k v])
next
  assume j: "j = idn \<or> j \<notin> {''and'', ''or'', ''nor'', ''__proto__''}"
  show "buildWhere_v1 R idn (JObj [(j, JNull)])
          = Inr (JObj [(if j = idn then ''id'' else j, JObj [(''$type'', JNum 10)])])"
    by (rule singleton_filter(1)[OF j cond_value_null])
  show "buildWhere_v2 R idn (JObj [(j, JNull)])
          = Inr (JObj [(if j = idn then ''_uri'' else j, JObj [(''$type'', JNum 10)])])"
    by (rule singleton_filter(2)[OF j cond_value_null])
qed

theorem operator_clause_dispatch_witness:
  "clause_of (JObj [(''gt'', JNum 5)]) = Inr (JStr ''gt'', JUndefined, JNum 5)
   \<and> truthy (JStr ''gt'')
   \<and> constructor_name (JObj [(''gt'', JNum 5)]) = Inr (JStr ''Object'')
   \<and> (''tags'' = ''id'' \<or> ''tags'' \<notin> {''and'', ''or'', ''nor'', ''__proto__''})
   \<and> JArr [JStr ''a''] \<noteq> JNull
   \<and> constructor_name (JArr [JStr ''a'']) = Inr (JStr ''Array'')
   \<and> buildWhere_v1 plain_RegExp ''id'' (JObj [(''tags'', JArr [JStr ''a''])])
        = Inr (JObj [(''tags'', JArr [JStr ''a''])])
   \<and> buildWhere_v2 plain_RegExp ''id'' (JObj [(''tags'', JArr [JStr ''a''])])
        = Inr (JObj [(''tags'', JArr [JStr ''a''])])
   \<and> buildWhere_v2 plain_RegExp ''id'' (JObj [(''tags'', JNull)])
        = Inr (JObj [(''tags'', JObj [(''$type'', JNum 10)])])"
  using operator_clause_dispatch[of "JObj [(''gt'', JNum 5)]" "JStr ''gt''" JUndefined "JNum 5"
      "''tags''" "''id''" "JArr [JStr ''a'']" plain_RegExp "''tags''"]
  by (simp add: clause_of_def own_def)

text \<open>
  C10. In \<open>buildWhere\<close> a condition value is to be dispatched as an operator clause only
  when it is a non-null object whose constructor name is \<open>'Object'\<close>; any other non-null
  value is to be emitted unchanged as a literal condition on its field, and \<open>null\<close> is
  to become the null-type test. The shape test guards against a falsy \<open>cond\<close> but reads
  \<open>cond.constructor.name\<close> without a guard. A plain object with an own property
  \<open>constructor\<close> that is \<open>null\<close>, as in the filter \<open>{a: {constructor: null}}\<close>, is a
  non-null value whose constructor name is not \<open>'Object'\<close>; it is not emitted as a
  literal: the read raises a TypeError and the translation fails, in both versions.
\<close>

theorem shadowed_constructor_raises:
  "constructor_name (JObj [(''constructor'', JNull)]) \<noteq> Inr (JStr ''Object'')
   \<and> buildWhere_v1 plain_RegExp ''id'' (JObj [(''a'', JObj [(''constructor'', JNull)])])
       = Inl TypeError
   \<and> buildWhere_v2 plain_RegExp ''id'' (JObj [(''a'', JObj [(''constructor'', JNull)])])
       = Inl TypeError"
  by (simp add: buildWhere_v1_def buildWhere_v2_def cond_value_def clause_of_def)

section \<open>Update payloads and ordering: results\<close>

text \<open>
  C6. With the flag enabled, exactly the allow-listed operator keys that are present in
  the payload are to be forwarded, each under its own key. The source says the same in
  the comment of line 745: each accepted operator will take its place on \<open>parsedData\<close>
  if defined. The guard of the loop is \<open>if(data[acceptedOperators[i]])\<close>, which tests
  the value for truthiness and not the key for presence. The payload
  \<open>{$set: {name: 'b'}, $inc: 0}\<close> holds the allow-listed key \<open>$inc\<close> with a defined
  value; with the flag enabled the result is \<open>{$set: {name: 'b'}}\<close>, and \<open>$inc\<close> is
  not forwarded.
\<close>

theorem parseUpdateData_drops_falsy_operator:
  "parseUpdateData (JBool True)
      (JObj [(''$set'', JObj [(''name'', JStr ''b'')]), (''$inc'', JNum 0)])
     = Inr (JObj [(''$set'', JObj [(''name'', JStr ''b'')])])"
  by (simp add: parseUpdateData_def acceptedOperators_def own_def)

text \<open>
  What \<open>parseUpdateData\<close> does on every payload. When the flag is not \<open>true\<close> it
  returns exactly \<open>{$set: payload}\<close>. When the flag is \<open>true\<close> and the payload is
  \<open>null\<close> or \<open>undefined\<close>, reading the first operator raises a TypeError. On any other
  payload with the flag \<open>true\<close>, exactly the allow-listed operator keys whose value in
  the payload is truthy are forwarded, each under its own key and in the order of the
  allow-list; when no allow-listed key has a truthy value, the whole payload is wrapped
  as \<open>{$set: payload}\<close>.
\<close>

theorem parseUpdateData_forwards_truthy_operators:
  "(flag \<noteq> JBool True \<longrightarrow> parseUpdateData flag data = Inr (JObj [(''$set'', data)]))
   \<and> (nothing = JUndefined \<or> nothing = JNull \<longrightarrow>
        parseUpdateData (JBool True) nothing = Inl TypeError)
   \<and> (payload \<noteq> JUndefined \<and> payload \<noteq> JNull \<longrightarrow>
        parseUpdateData (JBool True) payload =
          Inr (JObj (let forwarded = map (\<lambda>op. (op, get_prop payload op))
                         (filter (\<lambda>op. truthy (get_prop payload op)) acceptedOperators)
                     in if forwarded = [] then [(''$set'', payload)] else forwarded)))"
  using parseUpdateData_enabled[of payload]
  by (auto simp add: parseUpdateData_def acceptedOperators_def)

theorem parseUpdateData_forwards_truthy_operators_witness:
  "JBool False \<noteq> JBool True
   \<and> parseUpdateData (JBool False) (JObj [(''name'', JStr ''b'')])
       = Inr (JObj [(''$set'', JObj [(''name'', JStr ''b'')])])
   \<and> parseUpdateData (JBool True) JNull = Inl TypeError
   \<and> JObj [(''name'', JStr ''b''), (''$inc'', JObj [(''n'', JNum 1)])] \<noteq> JUndefined
   \<and> JObj [(''name'', JStr ''b''), (''$inc'', JObj [(''n'', JNum 1)])] \<noteq> JNull
   \<and> parseUpdateData (JBool True)
        (JObj [(''name'', JStr ''b''), (''$inc'', JObj [(''n'', JNum 1)])])
       = Inr (JObj [(''$inc'', JObj [(''n'', JNum 1)])])"
  using parseUpdateData_forwards_truthy_operators
    [of "JBool False" "JObj [(''name'', JStr ''b'')]" JNull
        "JObj [(''name'', JStr ''b''), (''$inc'', JObj [(''n'', JNum 1)])]"]
  by (simp add: acceptedOperators_def own_def)




section \<open>Completion callbacks: results\<close>

text \<open>
  C1. Every public operation is to invoke its completion callback exactly once, whatever
  the store answers. The first version does not: \<open>destroyAll\<close> with the filter
  \<open>{name: 'a'}\<close>, which names no locator, sends no request and never invokes the callback
  (the bulk path is commented out in the source); and when the store rejects the write
  of \<open>create\<close> or of \<open>save\<close>, no handler is attached and the callback is never invoked.
\<close>

theorem destroyAll_v1_never_calls_back:
  "destroyAll_v1 R U ''id'' (JObj [(''name'', JStr ''a'')]) out = Inr []
   \<and> callbacks (fst (create_v1 model data (Rejected e))) = []
   \<and> callbacks (fst (save_v1 model data (Rejected e))) = []"
  by (simp add: destroyAll_v1_def buildWhere_v1_def cond_value_def clause_of_def own_def
        insert_key_Nil create_v1_def save_v1_def)

text \<open>
  The second version's \<open>destroyAll\<close> on the same filter: one request, and one call of the
  callback, whether the store answers with an error or with a result.
\<close>

lemma destroyAll_v2_calls_back_once:
  assumes "truthy err \<or> (info \<noteq> JUndefined \<and> info \<noteq> JNull)"
  shows "\<exists>evs. destroyAll_v2 R ''id'' model (JObj [(''name'', JStr ''a'')]) (err, info)
                 = Inr (Request (Execute model ''remove'' [JObj [(''name'', JStr ''a'')]]) # evs)
               \<and> length (callbacks evs) = 1"
  using assms
  by (auto simp add: destroyAll_v2_def buildWhere_v2_def cond_value_def clause_of_def own_def
        insert_key_Nil js_get_defined)

text \<open>
  C2. \<open>updateAll\<close> with a filter that matches no document is to complete with
  \<open>{count: 0}\<close> and no error. In the first version, when the read that \<open>updateAll\<close>
  starts finds no document, the run consists of that read alone: the callback is never
  invoked, for any filter. The example is the filter \<open>{name: 'nobody'}\<close>.
\<close>

theorem updateAll_v1_no_match_never_calls_back:
  "updateAll_v1 R U idn model w data (Fulfilled []) out_save
     = map_sum (\<lambda>e. e) (\<lambda>req. ([Request req], data)) (all_v1_request R U idn model w)
   \<and> updateAll_v1 R U ''id'' ''Widget'' (JObj [(''name'', JStr ''nobody'')])
        [(''name'', JStr ''b'')] (Fulfilled []) out_save
     = Inr ([Request (QueryCollection ''Widget'' (Some (JObj [])))], [(''name'', JStr ''b'')])"
  by (simp add: updateAll_v1_def all_v1_request_def own_def indexed_def split: sum.splits)

text \<open>
  C8. \<open>updateAttributes\<close> on a locator that holds no document is to complete with an
  error that names the model and the locator, and is to write nothing. In the first
  version the operation is a \<open>save\<close> at that locator: its first event is a document
  write, and whenever the callback is invoked its error argument is \<open>null\<close>. The example
  is the model \<open>Widget\<close> with the unused locator \<open>Widget/none.json\<close>.
\<close>

theorem updateAttributes_v1_writes_without_error:
  "fst (updateAttributes_v1 model uri data out)
     = Request (Documents_write (JObj [(''uri'', uri),
                  (''content'', JObj (AList.update ''id'' uri data)),
                  (''contentType'', JStr ''application/json'')]))
       # (case out of Fulfilled (u # us) \<Rightarrow> [Callback [JNull, u]] | _ \<Rightarrow> [])
   \<and> fst (updateAttributes_v1 ''Widget'' (JStr ''Widget/none.json'') [(''name'', JStr ''b'')]
        (Fulfilled [JStr ''Widget/none.json'']))
     = [Request (Documents_write (JObj [(''uri'', JStr ''Widget/none.json''),
          (''content'', JObj [(''name'', JStr ''b''), (''id'', JStr ''Widget/none.json'')]),
          (''contentType'', JStr ''application/json'')])),
        Callback [JNull, JStr ''Widget/none.json'']]"
  by (cases "(data, out)" rule: write_handler.cases)
     (simp_all add: updateAttributes_v1_def save_v1_def own_def update_conv')

text \<open>
  What the second version does in the two cases above. \<open>updateAll\<close> sends one
  \<open>update\<close> with \<open>{multi: true, upsert: false}\<close> and reports the count \<open>n\<close> of the
  store's answer, zero included, with no error.
\<close>

lemma updateAll_v2_reports_count:
  assumes "buildWhere_v2 R idn w = Inr q"
    and "parseUpdateData flag (JObj (AList.delete idn data)) = Inr upd"
  shows "updateAll_v2 R flag idn model w data
           (JNull, JObj [(''result'', JObj [(''n'', JNum c)])])
         = (Inr [Request (Execute model ''update''
                   [q, upd, JObj [(''multi'', JBool True), (''upsert'', JBool False)]]),
                 Callback [JNull, JObj [(''count'', JNum c)]]],
            AList.delete idn data)"
  by (simp add: updateAll_v2_def Let_def assms own_def)

text \<open>
  \<open>updateAttributes\<close> sends one \<open>findAndModify\<close> with empty options, so without
  upsert; when the store finds no document (\<open>result.value\<close> is \<open>null\<close>) the callback gets
  the message that names the model and the locator.
\<close>

lemma updateAttributes_v2_miss_reports_error:
  assumes "parseUpdateData flag (JObj data) = Inr upd"
  shows "updateAttributes_v2 flag idn (connector_setIdValue idn) model uri data
           (JNull, JObj [(''value'', JNull)])
         = Inr [Request (Execute model ''findAndModify''
                  [JObj [(''_uri'', JStr uri)],
                   JArr [JArr [JStr ''_uri'', JStr ''asc'']],
                   upd, JObj []]),
                Callback [JStr (''No '' @ model @ '' found for uri '' @ uri), JNull]]"
  by (simp add: updateAttributes_v2_def Let_def assms own_def connector_setIdValue_def)

text \<open>
  C7. \<open>updateOrCreate\<close> is to look the document up by its locator and to merge or to
  insert. The function reads the variable \<open>uri\<close>, which it never declares (it declares
  \<open>id\<close>): unless the global object happens to define \<open>uri\<close>, every call raises a
  ReferenceError before any request, for every payload and whatever the store would
  answer, and the callback is never invoked. All the call has done by then is to remove
  the identity field from the payload.
\<close>

theorem updateOrCreate_v2_raises:
  "G ''uri'' = None \<Longrightarrow>
   updateOrCreate_v2 G S flag idn setIdValue model data reply
     = (Inl (ReferenceError ''uri''), AList.delete idn data)"
  using parseUpdateData_object[of flag "AList.delete idn data"]
  by (auto simp add: updateOrCreate_v2_def Let_def)

theorem updateOrCreate_v2_raises_witness:
  "Map.empty ''uri'' = None
   \<and> updateOrCreate_v2 Map.empty plain_toString (JBool False) ''id''
        (connector_setIdValue ''id'') ''Widget''
        [(''id'', JStr ''Widget/ab12.json''), (''name'', JStr ''a'')] (JNull, JNull)
       = (Inl (ReferenceError ''uri''), [(''name'', JStr ''a'')])"
  using updateOrCreate_v2_raises[of Map.empty plain_toString "JBool False" "''id''"
      "connector_setIdValue ''id''" "''Widget''"
      "[(''id'', JStr ''Widget/ab12.json''), (''name'', JStr ''a'')]" "(JNull, JNull)"]
  by simp

section \<open>The filter translator leaves its input alone\<close>

lemma extends_refl: "extends h h"
  by (simp add: extends_def)

lemma extends_trans: "extends h h1 \<Longrightarrow> extends h1 h2 \<Longrightarrow> extends h h2"
  by (auto simp add: extends_def)

lemma extends_but_refl: "extends_but q h h"
  by (simp add: extends_but_def)

lemma extends_but_trans: "extends_but q h h1 \<Longrightarrow> extends_but q h1 h2 \<Longrightarrow> extends_but q h h2"
  by (auto simp add: extends_but_def)

lemma extends_imp_but: "extends h h' \<Longrightarrow> extends_but q h h'"
  by (simp add: extends_def extends_but_def)

lemma extends_alloc: "alloc h ob = (a, h') \<Longrightarrow> extends h h'"
  by (auto simp add: alloc_def extends_def nth_append)

lemma extends_new_object: "h_new_object h ps = (r, h') \<Longrightarrow> extends h h'"
  by (auto simp add: h_new_object_def alloc_def extends_def nth_append)

lemma extends_new_RegExp: "h_new_RegExp R h p f = (r, h') \<Longrightarrow> extends h h'"
  by (auto simp add: h_new_RegExp_def alloc_def extends_def nth_append split: option.splits)

lemma extends_dispatch: "h_dispatch R h spec options cond = (r, h') \<Longrightarrow> extends h h'"
  unfolding h_dispatch_def
  by (auto split: if_splits sum.splits prod.splits hval.splits option.splits hobj.splits
           intro: extends_refl extends_new_object extends_trans
           dest!: extends_new_RegExp extends_alloc
           elim: extends_trans[OF _ extends_new_object])

lemma extends_cond_value: "h_cond_value R h c = (r, h') \<Longrightarrow> extends h h'"
  unfolding h_cond_value_def
  by (auto split: if_splits sum.splits prod.splits hval.splits
           intro: extends_refl extends_new_object extends_dispatch)

lemma extends_but_assign: "extends_but q h (h_assign h q k v)"
  by (auto simp add: h_assign_def h_set_prototype_def extends_but_def
           split: option.splits hobj.splits)

lemma extends_but_delete: "extends_but q h (h_delete h q k)"
  by (auto simp add: h_delete_def extends_but_def split: option.splits hobj.splits)

lemma frame:
  "buildWhere_st n R loc idn w h = (r, h') \<Longrightarrow> extends h h'"
  "forEach_st n R loc idn w q ks h = (r1, h') \<Longrightarrow> extends_but q h h'"
  "where_entry_st n R loc idn w q k h = (r2, h') \<Longrightarrow> extends_but q h h'"
  "where_map_st n R loc idn cs h = (r3, h') \<Longrightarrow> extends h h'"
proof (induction n R loc idn w h and n R loc idn w q ks h and n R loc idn w q k h
         and n R loc idn cs h
       arbitrary: r h' and r1 h' and r2 h' and r3 h'
       rule: buildWhere_st_forEach_st_where_entry_st_where_map_st.induct)
  case (1 R loc idn w h)
  then show ?case by (simp add: extends_refl)
next
  case (2 n R loc idn w h)
  obtain query h1 where al: "alloc h (HObject []) = (query, h1)" by (cases "alloc h (HObject [])")
  then have q: "query = length h" and h1: "h1 = h @ [HObject []]" by (auto simp: alloc_def)
  show ?case
  proof (cases "w = HNull \<or> h_typeof w \<noteq> ''object''")
    case True
    with "2.prems" al have "h' = h1" by simp
    with extends_alloc[OF al] show ?thesis by simp
  next
    case False
    obtain e h2 where fe: "forEach_st n R loc idn w query (map fst (h_own_entries h1 w)) h1 = (e, h2)"
      by (cases "forEach_st n R loc idn w query (map fst (h_own_entries h1 w)) h1")
    from "2.IH"[OF al[symmetric] False fe] have b: "extends_but query h1 h2" .
    from "2.prems" al False fe have "h' = h2" by (auto split: option.splits)
    with b q h1 show ?thesis
      by (auto simp add: extends_def extends_but_def nth_append)
  qed
next
  case (3 n R loc idn w query h)
  then show ?case by (simp add: extends_but_refl)
next
  case (4 n R loc idn w query k ks h)
  obtain e h1 where we: "where_entry_st n R loc idn w query k h = (e, h1)"
    by (cases "where_entry_st n R loc idn w query k h")
  from "4.IH"(1)[OF we] have b1: "extends_but query h h1" .
  show ?case
  proof (cases e)
    case None
    with "4.prems" we have "forEach_st n R loc idn w query ks h1 = (r1, h')" by simp
    from "4.IH"(2)[OF we[symmetric] None this] b1 show ?thesis
      by (rule extends_but_trans[rotated])
  next
    case (Some a)
    with "4.prems" we have "h' = h1" by simp
    with b1 show ?thesis by simp
  qed
next
  case (5 n R loc idn w query k0 h)
  define cond where "cond = h_prop h w k0"
  define k where "k = (if k0 = idn then loc else k0)"
  have IH: "\<And>a cs r3 h1. k = ''and'' \<or> k = ''or'' \<or> k = ''nor'' \<Longrightarrow> cond = HRef a \<Longrightarrow>
      cell h a = Some (HArray cs) \<Longrightarrow> where_map_st n R loc idn cs h = (r3, h1) \<Longrightarrow> extends h h1"
    using "5.IH"[OF cond_def k_def] by blast
  have fin: "\<And>h1 kk c. extends h h1 \<Longrightarrow>
      extends_but query h (h_delete (h_assign h1 query kk c) query k)"
    by (meson extends_imp_but extends_but_trans extends_but_assign extends_but_delete)
  have fin2: "\<And>h1 v. extends h h1 \<Longrightarrow> extends_but query h (h_assign h1 query k v)"
    by (meson extends_imp_but extends_but_trans extends_but_assign)
  note P = "5.prems"[unfolded where_entry_st.simps Let_def, folded cond_def k_def]
  show ?case
  proof (cases "k = ''and'' \<or> k = ''or'' \<or> k = ''nor''")
    case comb: True
    show ?thesis
    proof (cases "\<exists>a cs. cond = HRef a \<and> cell h a = Some (HArray cs)")
      case True
      then obtain a cs where c: "cond = HRef a" "cell h a = Some (HArray cs)" by blast
      obtain e h1 where wm: "where_map_st n R loc idn cs h = (e, h1)"
        by (cases "where_map_st n R loc idn cs h")
      from IH[OF comb c wm] have e1: "extends h h1" .
      show ?thesis
      proof (cases e)
        case (Inl err)
        with P comb c wm have "h' = h1" by auto
        with e1 show ?thesis by (simp add: extends_imp_but)
      next
        case (Inr qs)
        obtain b h2 where al: "alloc h1 (HArray qs) = (b, h2)" by (cases "alloc h1 (HArray qs)")
        from P comb c wm Inr al
        have "h' = h_delete (h_assign h2 query (CHR ''$'' # k) (HRef b)) query k" by auto
        with fin[OF extends_trans[OF e1 extends_alloc[OF al]]] show ?thesis by simp
      qed
    next
      case False
      with P comb have "h' = h_delete (h_assign h query (CHR ''$'' # k) cond) query k"
        by (auto split: hval.splits option.splits hobj.splits)
      with fin[OF extends_refl] show ?thesis by simp
    qed
  next
    case False
    obtain e h1 where cv: "h_cond_value R h cond = (e, h1)" by (cases "h_cond_value R h cond")
    from extends_cond_value[OF cv] have e1: "extends h h1" .
    show ?thesis
    proof (cases e)
      case (Inl err)
      with P False cv have "h' = h1" by auto
      with e1 show ?thesis by (simp add: extends_imp_but)
    next
      case (Inr v)
      with P False cv have "h' = h_assign h1 query k v" by auto
      with fin2[OF e1] show ?thesis by simp
    qed
  qed
next
  case (6 n R loc idn h)
  then show ?case by (simp add: extends_refl)
next
  case (7 n R loc idn c cs h)
  obtain e h1 where bw: "buildWhere_st n R loc idn c h = (e, h1)"
    by (cases "buildWhere_st n R loc idn c h")
  from "7.IH"(1)[OF bw] have e1: "extends h h1" .
  show ?case
  proof (cases e)
    case (Inl a)
    with "7.prems" bw have "h' = h1" by simp
    with e1 show ?thesis by simp
  next
    case (Inr qv)
    obtain e2 h2 where wm: "where_map_st n R loc idn cs h1 = (e2, h2)"
      by (cases "where_map_st n R loc idn cs h1")
    from "7.IH"(2)[OF bw[symmetric] Inr wm] have e2: "extends h1 h2" .
    from "7.prems" bw Inr wm have "h' = h2" by (auto split: sum.splits)
    with extends_trans[OF e1 e2] show ?thesis by simp
  qed
qed

text \<open>
  The translation of the filter \<open>{id: 'Widget/ab12.json', age: {between: [18, 30]}}\<close> as
  a value, to set beside the run on \<open>example_store\<close> below, where the same filter is the
  object at address 0.
\<close>

lemma example_filter_as_value:
  "buildWhere_v2 plain_RegExp ''id''
     (JObj [(''id'', JStr ''Widget/ab12.json''),
            (''age'', JObj [(''between'', JArr [JNum 18, JNum 30])])])
   = Inr (JObj [(''_uri'', JStr ''Widget/ab12.json''),
                (''age'', JObj [(''$gte'', JNum 18), (''$lte'', JNum 30)])])"
  by code_simp

text \<open>
  C5. \<open>buildWhere\<close> never mutates its input expression. Whatever the filter, the
  identity field name and the depth bound, and whether the call returns or raises, every
  object that the store held before the call is the same object afterwards, at the same
  address: the input mapping and everything it refers to keep their keys and values.
  The function touches nothing but the store, and what it returns is the object it
  allocated first, so the rewrite of the identity field (to \<open>'id'\<close> in the first
  version, to \<open>'_uri'\<close> in the second) is found in the new query only.
\<close>

theorem buildWhere_leaves_input_unchanged:
  assumes "buildWhere_st n R loc idn w h = (r, h')"
  shows "length h \<le> length h'
       \<and> (\<forall>a < length h. h' ! a = h ! a)
       \<and> (\<forall>q. r = Inr q \<longrightarrow> q = HRef (length h))"
proof -
  from frame(1)[OF assms] have "length h \<le> length h'" and "\<forall>a < length h. h' ! a = h ! a"
    by (simp_all add: extends_def)
  moreover have "\<forall>q. r = Inr q \<longrightarrow> q = HRef (length h)"
    using assms by (cases n) (auto simp add: alloc_def split: if_splits prod.splits option.splits)
  ultimately show ?thesis by blast
qed

theorem buildWhere_leaves_input_unchanged_witness:
  "buildWhere_st (Suc (Suc 0)) plain_h_RegExp ''_uri'' ''id'' (HRef 0) example_store
     = (Inr (HRef 3),
        example_store @ [HObject [(''_uri'', HStr ''Widget/ab12.json''), (''age'', HRef 4)],
                         HObject [(''$gte'', HNum 18), (''$lte'', HNum 30)]])
   \<and> (example_store @ [HObject [(''_uri'', HStr ''Widget/ab12.json''), (''age'', HRef 4)],
                         HObject [(''$gte'', HNum 18), (''$lte'', HNum 30)]]) ! 0
       = HObject [(''id'', HStr ''Widget/ab12.json''), (''age'', HRef 1)]
   \<and> HRef 3 = HRef (length example_store)"
proof -
  have run: "buildWhere_st (Suc (Suc 0)) plain_h_RegExp ''_uri'' ''id'' (HRef 0) example_store
     = (Inr (HRef 3),
        example_store @ [HObject [(''_uri'', HStr ''Widget/ab12.json''), (''age'', HRef 4)],
                         HObject [(''$gte'', HNum 18), (''$lte'', HNum 30)]])"
    by code_simp
  from buildWhere_leaves_input_unchanged[OF run] run show ?thesis
    by (simp add: example_store_def)
qed

end
